theory Spec2Isabelle
  imports Complex_Main
begin

section \<open>The Turtle's adventure game: data model\<close>

text \<open>
  The embedding follows \<^verbatim>\<open>turtle_adventure.py\<close>. Python's \<^verbatim>\<open>float\<close> is read as
  \<^typ>\<open>real\<close> (no rounding), Python's \<^verbatim>\<open>int\<close> as \<^typ>\<open>int\<close>, and a mixed
  expression is promoted to \<^typ>\<open>real\<close> as Python promotes it to \<^verbatim>\<open>float\<close>.
  A class is a record; a subclass extends the record of its base class. Every element
  of the game holds the coordinates \<^verbatim>\<open>x\<close> and \<^verbatim>\<open>y\<close>, here \<open>pos_x\<close> and \<open>pos_y\<close>.
\<close>

datatype error = IndexError | ValueError | OutOfDraws

record TurtleGameElement =
  pos_x :: real
  pos_y :: real

record Waypoint = TurtleGameElement +
  is_active :: bool

record Home = TurtleGameElement +
  home_size :: real

text \<open>
  The player's coordinates are those of its turtle (the properties \<^verbatim>\<open>x\<close> and \<^verbatim>\<open>y\<close>
  are overridden to \<^verbatim>\<open>xcor()\<close> and \<^verbatim>\<open>ycor()\<close>). Of \<^verbatim>\<open>RawTurtle\<close> the game uses the
  position and the heading; the heading is kept in radians.
\<close>

record RawTurtle =
  xcor :: real
  ycor :: real
  heading :: real

record Player =
  player_speed :: real
  turtle :: RawTurtle

record Enemy = TurtleGameElement +
  enemy_size :: real
  color :: string

text \<open>
  The two state attributes of a random-walk enemy hold one of its four bound methods.
\<close>

datatype walk_state = Moving_up | Moving_down | Moving_right | Moving_left

record RandomWalkEnemy = Enemy +
  state_x :: walk_state
  state_y :: walk_state
  walk_speed :: real

record ChasingEnemy = Enemy +
  chasing_speed :: real

record FencingEnemy = Enemy +
  fencing_speed :: real
  directions :: "string list"
  current_direction_index :: int
  distance_from_home :: real

text \<open>
  \<^verbatim>\<open>BossEnemy\<close> overrides the property \<^verbatim>\<open>size\<close> with one stored in \<^verbatim>\<open>_size\<close>
  (\<open>boss_size\<close>); the attribute of the base class is set by the constructor and not
  read again.
\<close>

record BossEnemy = Enemy +
  boss_size :: real
  num_fake_homes :: nat
  boss_speed :: real
  growth_rate :: real

datatype enemy =
    RandomWalk RandomWalkEnemy
  | Chasing ChasingEnemy
  | Fencing FencingEnemy
  | Boss BossEnemy

text \<open>
  What the game keeps of \<^verbatim>\<open>gamelib.Game\<close>: the size of the canvas as \<^verbatim>\<open>winfo_width\<close> and
  \<^verbatim>\<open>winfo_height\<close> report it, the elements added with \<^verbatim>\<open>add_element\<close>, whether the
  animation is running, the text items created on the canvas, and the callbacks
  scheduled with \<^verbatim>\<open>after\<close>. An element of the list is a \<^verbatim>\<open>Home\<close> object or the
  position of an enemy in \<open>enemies\<close>; the waypoint, the home and the player of the
  game are referred to by name.
\<close>

datatype element =
    WaypointElement
  | GameHomeElement
  | PlayerElement
  | HomeElement Home
  | EnemyElement nat

datatype callback = Create_enemy

record text_item =
  text_x :: real
  text_y :: real
  text_string :: string
  text_fill :: string

record EnemyGenerator =
  generator_level :: int

record TurtleAdventureGame =
  level :: int
  screen_width :: int
  screen_height :: int
  waypoint :: Waypoint
  player :: Player
  home :: Home
  enemies :: "enemy list"
  enemy_generator :: EnemyGenerator
  winfo_width :: nat
  winfo_height :: nat
  elements :: "element list"
  running :: bool
  canvas_texts :: "text_item list"
  scheduled :: "(int \<times> callback) list"

section \<open>The game object\<close>

text \<open>
  Modelled from the spec: \<^verbatim>\<open>gamelib.Game\<close> is not among the sources. \<^verbatim>\<open>add_element\<close>
  registers an element with the game, \<^verbatim>\<open>stop\<close> ends the animation (entities are torn
  down when the game ends), \<^verbatim>\<open>after\<close> hands a callback to the host's timer.
\<close>

definition add_element :: "element \<Rightarrow> TurtleAdventureGame \<Rightarrow> TurtleAdventureGame" where
  "add_element el g = g\<lparr>elements := elements g @ [el]\<rparr>"

definition stop :: "TurtleAdventureGame \<Rightarrow> TurtleAdventureGame" where
  "stop g = g\<lparr>running := False\<rparr>"

definition after :: "int \<Rightarrow> callback \<Rightarrow> TurtleAdventureGame \<Rightarrow> TurtleAdventureGame" where
  "after ms cb g = g\<lparr>scheduled := scheduled g @ [(ms, cb)]\<rparr>"

definition add_enemy :: "enemy \<Rightarrow> TurtleAdventureGame \<Rightarrow> TurtleAdventureGame" where
  "add_enemy e g =
     add_element (EnemyElement (length (enemies g))) (g\<lparr>enemies := enemies g @ [e]\<rparr>)"

definition game_over_win :: "TurtleAdventureGame \<Rightarrow> TurtleAdventureGame" where
  "game_over_win g =
     (let g1 = stop g in
      g1\<lparr>canvas_texts := canvas_texts g1 @
        [\<lparr>text_x = real_of_int (screen_width g1) / 2,
          text_y = real_of_int (screen_height g1) / 2,
          text_string = ''You Win'', text_fill = ''green''\<rparr>]\<rparr>)"

definition game_over_lose :: "TurtleAdventureGame \<Rightarrow> TurtleAdventureGame" where
  "game_over_lose g =
     (let g1 = stop g in
      g1\<lparr>canvas_texts := canvas_texts g1 @
        [\<lparr>text_x = real_of_int (screen_width g1) / 2,
          text_y = real_of_int (screen_height g1) / 2,
          text_string = ''You Lose'', text_fill = ''red''\<rparr>]\<rparr>)"

definition player_x :: "TurtleAdventureGame \<Rightarrow> real" where
  "player_x g = xcor (turtle (player g))"

definition player_y :: "TurtleAdventureGame \<Rightarrow> real" where
  "player_y g = ycor (turtle (player g))"

section \<open>Containment and collision\<close>

definition Home_contains :: "Home \<Rightarrow> real \<Rightarrow> real \<Rightarrow> bool" where
  "Home_contains self x y =
     (let x1 = pos_x self - home_size self / 2; x2 = pos_x self + home_size self / 2;
          y1 = pos_y self - home_size self / 2; y2 = pos_y self + home_size self / 2
      in (x1 \<le> x \<and> x \<le> x2) \<and> (y1 \<le> y \<and> y \<le> y2))"

text \<open>
  \<^verbatim>\<open>hits_player\<close> reads \<^verbatim>\<open>self.size\<close>, a property that \<^verbatim>\<open>BossEnemy\<close> overrides: the
  value the property yields is the second argument.
\<close>

definition hits_player ::
  "'a TurtleGameElement_scheme \<Rightarrow> real \<Rightarrow> TurtleAdventureGame \<Rightarrow> bool" where
  "hits_player self sz g =
     ((pos_x self - sz / 2 < player_x g \<and> player_x g < pos_x self + sz / 2)
      \<and>
      (pos_y self - sz / 2 < player_y g \<and> player_y g < pos_y self + sz / 2))"

section \<open>Python's library: random numbers, \<^verbatim>\<open>math.atan2\<close>, the turtle\<close>

text \<open>
  The random generator is the list of the raw draws it will deliver; a draw is mapped
  into the range asked for. A computation that needs a draw when none is left ends with
  \<open>OutOfDraws\<close>. \<^verbatim>\<open>randint(a, b)\<close> raises \<^verbatim>\<open>ValueError\<close> on an empty range and
  \<^verbatim>\<open>choice\<close> raises \<^verbatim>\<open>IndexError\<close> on an empty sequence. Indexing a list
  (\<open>py_index\<close>) counts a negative index from the end and raises \<^verbatim>\<open>IndexError\<close>
  outside the list.
\<close>

definition and_then :: "error + 'a \<Rightarrow> ('a \<Rightarrow> error + 'b) \<Rightarrow> error + 'b" where
  "and_then r f = (case r of Inl e \<Rightarrow> Inl e | Inr v \<Rightarrow> f v)"

definition randint :: "int \<Rightarrow> int \<Rightarrow> nat list \<Rightarrow> error + (int \<times> nat list)" where
  "randint a b rs =
     (if b < a then Inl ValueError
      else case rs of
             [] \<Rightarrow> Inl OutOfDraws
           | r # rs' \<Rightarrow> Inr (a + int (r mod nat (b - a + 1)), rs'))"

definition choice :: "'a list \<Rightarrow> nat list \<Rightarrow> error + ('a \<times> nat list)" where
  "choice xs rs =
     (if xs = [] then Inl IndexError
      else case rs of
             [] \<Rightarrow> Inl OutOfDraws
           | r # rs' \<Rightarrow> Inr (xs ! (r mod length xs), rs'))"

definition py_index :: "'a list \<Rightarrow> int \<Rightarrow> error + 'a" where
  "py_index xs i =
     (if 0 \<le> i \<and> i < int (length xs) then Inr (xs ! nat i)
      else if i < 0 \<and> - int (length xs) \<le> i then Inr (xs ! nat (int (length xs) + i))
      else Inl IndexError)"

definition atan2 :: "real \<Rightarrow> real \<Rightarrow> real" where
  "atan2 y x =
     (if 0 < x then arctan (y / x)
      else if x < 0 then (if 0 \<le> y then arctan (y / x) + pi else arctan (y / x) - pi)
      else if 0 < y then pi / 2
      else if y < 0 then - (pi / 2)
      else 0)"

text \<open>
  The turtle, as Python documents it: \<^verbatim>\<open>towards\<close> is the angle of the line from the
  turtle to the point, \<^verbatim>\<open>setheading\<close> turns the turtle to an angle, \<^verbatim>\<open>forward\<close> moves
  it by a distance in the direction it is headed, \<^verbatim>\<open>distance\<close> is the distance from
  the turtle to the point.
\<close>

definition towards :: "RawTurtle \<Rightarrow> real \<Rightarrow> real \<Rightarrow> real" where
  "towards t x y = atan2 (y - ycor t) (x - xcor t)"

definition setheading :: "real \<Rightarrow> RawTurtle \<Rightarrow> RawTurtle" where
  "setheading to_angle t = t\<lparr>heading := to_angle\<rparr>"

definition forward :: "real \<Rightarrow> RawTurtle \<Rightarrow> RawTurtle" where
  "forward d t =
     t\<lparr>xcor := xcor t + d * cos (heading t), ycor := ycor t + d * sin (heading t)\<rparr>"

definition distance :: "RawTurtle \<Rightarrow> real \<Rightarrow> real \<Rightarrow> real" where
  "distance t x y = sqrt ((x - xcor t)\<^sup>2 + (y - ycor t)\<^sup>2)"

section \<open>Waypoint, home and player\<close>

definition activate :: "real \<Rightarrow> real \<Rightarrow> Waypoint \<Rightarrow> Waypoint" where
  "activate x y self = self\<lparr>is_active := True, pos_x := x, pos_y := y\<rparr>"

definition deactivate :: "Waypoint \<Rightarrow> Waypoint" where
  "deactivate self = self\<lparr>is_active := False\<rparr>"

definition Home_init :: "int \<times> int \<Rightarrow> int \<Rightarrow> Home" where
  "Home_init pos sz =
     \<lparr>pos_x = real_of_int (fst pos), pos_y = real_of_int (snd pos),
      home_size = real_of_int sz\<rparr>"

definition Player_update :: "TurtleAdventureGame \<Rightarrow> TurtleAdventureGame" where
  "Player_update g =
     (let g1 = (if Home_contains (home g) (player_x g) (player_y g)
                then game_over_win g else g);
          self = player g1;
          wp = waypoint g1
      in if is_active (waypoint g1) then
           (let t1 = setheading (towards (turtle self) (pos_x wp) (pos_y wp)) (turtle self);
                t2 = forward (player_speed self) t1;
                g2 = g1\<lparr>player := self\<lparr>turtle := t2\<rparr>\<rparr>
            in if distance t2 (pos_x wp) (pos_y wp) < player_speed self
               then g2\<lparr>waypoint := deactivate wp\<rparr>
               else g2)
         else g1)"

section \<open>Enemies\<close>

text \<open>
  Modelled from the spec: \<^verbatim>\<open>gamelib.GameElement\<close> is not among the sources. An entity
  holds an (x, y) coordinate pair; a new one is at the origin until its coordinates
  are assigned, which \<^verbatim>\<open>create_enemy\<close> does before anything reads them.
\<close>

definition Enemy_init :: "int \<Rightarrow> string \<Rightarrow> Enemy" where
  "Enemy_init sz col = \<lparr>pos_x = 0, pos_y = 0, enemy_size = real_of_int sz, color = col\<rparr>"

subsection \<open>Random walk\<close>

definition RandomWalkEnemy_init ::
  "int \<Rightarrow> string \<Rightarrow> nat list \<Rightarrow> error + (RandomWalkEnemy \<times> nat list)" where
  "RandomWalkEnemy_init sz col rs =
     and_then (choice [Moving_right, Moving_left] rs) (\<lambda>(sx, rs1).
     and_then (choice [Moving_up, Moving_down] rs1) (\<lambda>(sy, rs2).
       Inr (Enemy.extend (Enemy_init sz col)
              \<lparr>state_x = sx, state_y = sy, walk_speed = 3\<rparr>, rs2)))"

definition move_to :: "real \<Rightarrow> real \<Rightarrow> RandomWalkEnemy \<Rightarrow> RandomWalkEnemy" where
  "move_to x y self = self\<lparr>pos_x := x, pos_y := y\<rparr>"

definition moving_up :: "TurtleAdventureGame \<Rightarrow> RandomWalkEnemy \<Rightarrow> RandomWalkEnemy" where
  "moving_up g self =
     (let self1 = move_to (pos_x self) (pos_y self + walk_speed self) self
      in if pos_y self1 > real (winfo_height g) then self1\<lparr>state_y := Moving_down\<rparr>
         else self1)"

definition moving_down :: "TurtleAdventureGame \<Rightarrow> RandomWalkEnemy \<Rightarrow> RandomWalkEnemy" where
  "moving_down g self =
     (let self1 = move_to (pos_x self) (pos_y self - walk_speed self) self
      in if pos_y self1 < 0 then self1\<lparr>state_y := Moving_up\<rparr> else self1)"

definition moving_right :: "TurtleAdventureGame \<Rightarrow> RandomWalkEnemy \<Rightarrow> RandomWalkEnemy" where
  "moving_right g self =
     (let self1 = move_to (pos_x self + walk_speed self) (pos_y self) self
      in if pos_x self1 > real (winfo_width g) then self1\<lparr>state_x := Moving_left\<rparr>
         else self1)"

definition moving_left :: "TurtleAdventureGame \<Rightarrow> RandomWalkEnemy \<Rightarrow> RandomWalkEnemy" where
  "moving_left g self =
     (let self1 = move_to (pos_x self - walk_speed self) (pos_y self) self
      in if pos_x self1 < 0 then self1\<lparr>state_x := Moving_right\<rparr> else self1)"

fun call_state ::
  "walk_state \<Rightarrow> TurtleAdventureGame \<Rightarrow> RandomWalkEnemy \<Rightarrow> RandomWalkEnemy" where
  "call_state Moving_up g self = moving_up g self"
| "call_state Moving_down g self = moving_down g self"
| "call_state Moving_right g self = moving_right g self"
| "call_state Moving_left g self = moving_left g self"

definition RandomWalkEnemy_update ::
  "TurtleAdventureGame \<Rightarrow> RandomWalkEnemy \<Rightarrow> RandomWalkEnemy \<times> TurtleAdventureGame" where
  "RandomWalkEnemy_update g self =
     (let self1 = call_state (state_x self) g self;
          self2 = call_state (state_y self1) g self1
      in (self2, if hits_player self2 (enemy_size self2) g then game_over_lose g else g))"

subsection \<open>Chasing\<close>

definition ChasingEnemy_init :: "int \<Rightarrow> string \<Rightarrow> ChasingEnemy" where
  "ChasingEnemy_init sz col = Enemy.extend (Enemy_init sz col) \<lparr>chasing_speed = 3\<rparr>"

definition ChasingEnemy_update ::
  "TurtleAdventureGame \<Rightarrow> ChasingEnemy \<Rightarrow> ChasingEnemy \<times> TurtleAdventureGame" where
  "ChasingEnemy_update g self =
     (let angle = atan2 (player_y g - pos_y self) (player_x g - pos_x self);
          self1 = self\<lparr>pos_x := pos_x self + chasing_speed self * cos angle\<rparr>;
          self2 = self1\<lparr>pos_y := pos_y self1 + chasing_speed self1 * sin angle\<rparr>
      in (self2, if hits_player self2 (enemy_size self2) g then game_over_lose g else g))"

subsection \<open>Fencing\<close>

definition FencingEnemy_update ::
  "TurtleAdventureGame \<Rightarrow> FencingEnemy \<Rightarrow> error + (FencingEnemy \<times> TurtleAdventureGame)" where
  "FencingEnemy_update g self =
     and_then (py_index (directions self) (current_direction_index self)) (\<lambda>direction.
       let self2 =
         (if direction = ''right'' then
            (let self1 = self\<lparr>pos_x := pos_x self + fencing_speed self\<rparr>
             in if pos_x self1 \<ge> pos_x (home g) + distance_from_home self1
                then self1\<lparr>current_direction_index := (current_direction_index self1 + 1) mod 4\<rparr>
                else self1)
          else if direction = ''down'' then
            (let self1 = self\<lparr>pos_y := pos_y self + fencing_speed self\<rparr>
             in if pos_y self1 \<ge> pos_y (home g) + distance_from_home self1
                then self1\<lparr>current_direction_index := (current_direction_index self1 + 1) mod 4\<rparr>
                else self1)
          else if direction = ''left'' then
            (let self1 = self\<lparr>pos_x := pos_x self - fencing_speed self\<rparr>
             in if pos_x self1 \<le> pos_x (home g) - distance_from_home self1
                then self1\<lparr>current_direction_index := (current_direction_index self1 + 1) mod 4\<rparr>
                else self1)
          else if direction = ''up'' then
            (let self1 = self\<lparr>pos_y := pos_y self - fencing_speed self\<rparr>
             in if pos_y self1 \<le> pos_y (home g) - distance_from_home self1
                then self1\<lparr>current_direction_index := (current_direction_index self1 + 1) mod 4\<rparr>
                else self1)
          else self)
       in Inr (self2, if hits_player self2 (enemy_size self2) g then game_over_lose g else g))"

definition FencingEnemy_init ::
  "TurtleAdventureGame \<Rightarrow> int \<Rightarrow> string \<Rightarrow> error + (FencingEnemy \<times> TurtleAdventureGame)" where
  "FencingEnemy_init g sz col =
     (let self0 = Enemy.extend (Enemy_init sz col)
            \<lparr>fencing_speed = 5, directions = [''right'', ''down'', ''left'', ''up''],
             current_direction_index = 0, distance_from_home = 50\<rparr>;
          self1 = self0\<lparr>pos_x := pos_x (home g) + distance_from_home self0\<rparr>;
          self2 = self1\<lparr>pos_y := pos_y (home g) + distance_from_home self1\<rparr>
      in FencingEnemy_update g self2)"

subsection \<open>Boss\<close>

text \<open>
  The constructor is given the game, as every element is, and returns it with the new
  enemy: it does not call \<^verbatim>\<open>generate_fake_homes\<close>.
\<close>

definition BossEnemy_init ::
  "TurtleAdventureGame \<Rightarrow> int \<Rightarrow> string \<Rightarrow> BossEnemy \<times> TurtleAdventureGame" where
  "BossEnemy_init g sz col =
     (Enemy.extend (Enemy_init sz col)
        \<lparr>boss_size = real_of_int sz, num_fake_homes = 5, boss_speed = 3,
         growth_rate = 7 / 10\<rparr>, g)"

definition BossEnemy_update ::
  "TurtleAdventureGame \<Rightarrow> BossEnemy \<Rightarrow> BossEnemy \<times> TurtleAdventureGame" where
  "BossEnemy_update g self =
     (let angle = atan2 (player_y g - pos_y self) (player_x g - pos_x self);
          self1 = self\<lparr>pos_x := pos_x self + boss_speed self * cos angle\<rparr>;
          self2 = self1\<lparr>pos_y := pos_y self1 + boss_speed self1 * sin angle\<rparr>;
          self3 = self2\<lparr>boss_size := boss_size self2 + growth_rate self2\<rparr>;
          self4 = self3\<lparr>boss_speed := boss_speed self3 + 1 / 1000\<rparr>
      in (self4, if hits_player self4 (boss_size self4) g then game_over_lose g else g))"

text \<open>The loop of \<^verbatim>\<open>generate_fake_homes\<close>, with the number of rounds left.\<close>

fun fake_homes_loop ::
  "nat \<Rightarrow> int \<Rightarrow> int \<Rightarrow> TurtleAdventureGame \<Rightarrow> nat list \<Rightarrow>
   error + (TurtleAdventureGame \<times> nat list)" where
  "fake_homes_loop 0 canvas_width canvas_height g rs = Inr (g, rs)"
| "fake_homes_loop (Suc n) canvas_width canvas_height g rs =
     and_then (randint 0 canvas_width rs) (\<lambda>(fake_home_x, rs1).
     and_then (randint 0 canvas_height rs1) (\<lambda>(fake_home_y, rs2).
       let fake_home = Home_init (fake_home_x, fake_home_y) 20
       in fake_homes_loop n canvas_width canvas_height
            (add_element (HomeElement fake_home) g) rs2))"

definition generate_fake_homes ::
  "BossEnemy \<Rightarrow> TurtleAdventureGame \<Rightarrow> nat list \<Rightarrow> error + (TurtleAdventureGame \<times> nat list)" where
  "generate_fake_homes self g rs =
     (let canvas_width = int (winfo_width g);
          canvas_height = int (winfo_height g)
      in fake_homes_loop (num_fake_homes self) canvas_width canvas_height g rs)"

section \<open>The enemy generator\<close>

text \<open>
  The loop of \<^verbatim>\<open>create_enemy\<close> that draws a spawn point until one is far enough from
  the player. It ends with \<open>OutOfDraws\<close> when the draws are used up before a point is
  accepted. The power \<^verbatim>\<open>** 0.5\<close> of a sum of squares is its square root.
\<close>

function spawn_loop ::
  "int \<Rightarrow> int \<Rightarrow> real \<Rightarrow> real \<Rightarrow> int \<Rightarrow> nat list \<Rightarrow> error + ((real \<times> real) \<times> nat list)" where
  "spawn_loop canvas_width canvas_height player_x0 player_y0 min_distance rs =
     (case randint 0 canvas_width rs of
        Inl e \<Rightarrow> Inl e
      | Inr (random_x, rs1) \<Rightarrow>
          (case randint 0 canvas_height rs1 of
             Inl e \<Rightarrow> Inl e
           | Inr (random_y, rs2) \<Rightarrow>
               (let distance_to_player =
                      sqrt ((real_of_int random_x - player_x0)\<^sup>2 +
                            (real_of_int random_y - player_y0)\<^sup>2)
                in if distance_to_player \<ge> real_of_int min_distance
                   then Inr ((real_of_int random_x, real_of_int random_y), rs2)
                   else spawn_loop canvas_width canvas_height player_x0 player_y0
                          min_distance rs2)))"
  by pat_completeness auto
termination
  by (relation "measure (\<lambda>(cw, ch, px, py, md, rs). length rs)")
     (auto simp: randint_def split: if_splits list.splits)

declare spawn_loop.simps [simp del]

definition set_x :: "real \<Rightarrow> enemy \<Rightarrow> enemy" where
  "set_x v e =
     (case e of
        RandomWalk r \<Rightarrow> RandomWalk (r\<lparr>pos_x := v\<rparr>)
      | Chasing c \<Rightarrow> Chasing (c\<lparr>pos_x := v\<rparr>)
      | Fencing f \<Rightarrow> Fencing (f\<lparr>pos_x := v\<rparr>)
      | Boss b \<Rightarrow> Boss (b\<lparr>pos_x := v\<rparr>))"

definition set_y :: "real \<Rightarrow> enemy \<Rightarrow> enemy" where
  "set_y v e =
     (case e of
        RandomWalk r \<Rightarrow> RandomWalk (r\<lparr>pos_y := v\<rparr>)
      | Chasing c \<Rightarrow> Chasing (c\<lparr>pos_y := v\<rparr>)
      | Fencing f \<Rightarrow> Fencing (f\<lparr>pos_y := v\<rparr>)
      | Boss b \<Rightarrow> Boss (b\<lparr>pos_y := v\<rparr>))"

definition get_x :: "enemy \<Rightarrow> real" where
  "get_x e =
     (case e of RandomWalk r \<Rightarrow> pos_x r | Chasing c \<Rightarrow> pos_x c
              | Fencing f \<Rightarrow> pos_x f | Boss b \<Rightarrow> pos_x b)"

definition get_y :: "enemy \<Rightarrow> real" where
  "get_y e =
     (case e of RandomWalk r \<Rightarrow> pos_y r | Chasing c \<Rightarrow> pos_y c
              | Fencing f \<Rightarrow> pos_y f | Boss b \<Rightarrow> pos_y b)"

text \<open>
  The first half of \<^verbatim>\<open>create_enemy\<close>: the enemy chosen by the level modulo 4.
  The level is the one the generator was given when it was made.
\<close>

definition new_enemy_of_level ::
  "TurtleAdventureGame \<Rightarrow> nat list \<Rightarrow> error + (enemy \<times> TurtleAdventureGame \<times> nat list)" where
  "new_enemy_of_level g rs =
     (let canvas_width = int (winfo_width g);
          canvas_height = int (winfo_height g);
          level_mod = generator_level (enemy_generator g) mod 4
      in if level_mod = 1 then
           and_then (RandomWalkEnemy_init 20 ''green'' rs) (\<lambda>(new_enemy, rs1).
             Inr (RandomWalk new_enemy, g, rs1))
         else if level_mod = 2 then
           Inr (Chasing (ChasingEnemy_init 20 ''red''), g, rs)
         else if level_mod = 3 then
           and_then (FencingEnemy_init g 20 ''blue'') (\<lambda>(new_enemy, g1).
             Inr (Fencing new_enemy, g1, rs))
         else
           (let (new_enemy, g0) = BossEnemy_init g 20 ''black''
            in and_then (randint 0 canvas_width rs) (\<lambda>(bx, rs1).
               and_then (randint 0 canvas_height rs1) (\<lambda>(by, rs2).
                 let new_enemy1 = new_enemy\<lparr>pos_x := real_of_int bx\<rparr>;
                     new_enemy2 = new_enemy1\<lparr>pos_y := real_of_int by\<rparr>
                 in and_then (generate_fake_homes new_enemy2 g0 rs2) (\<lambda>(g1, rs3).
                      Inr (Boss new_enemy2, g1, rs3))))))"

definition create_enemy ::
  "TurtleAdventureGame \<Rightarrow> nat list \<Rightarrow> error + (TurtleAdventureGame \<times> nat list)" where
  "create_enemy g rs =
     (let canvas_width = int (winfo_width g);
          canvas_height = int (winfo_height g);
          player_x0 = player_x g;
          player_y0 = player_y g;
          self_level = generator_level (enemy_generator g);
          level_mod = self_level mod 4
      in and_then (new_enemy_of_level g rs) (\<lambda>(new_enemy, g1, rs1).
           let min_distance = max (250 - (self_level * 10)) 100
           in and_then
                (if level_mod = 3
                 then Inr ((pos_x (home g1) + 50, pos_y (home g1) + 50), rs1)
                 else spawn_loop canvas_width canvas_height player_x0 player_y0
                        min_distance rs1)
                (\<lambda>((random_x, random_y), rs2).
                   let new_enemy1 = set_x random_x new_enemy;
                       new_enemy2 = set_y random_y new_enemy1;
                       g2 = add_enemy new_enemy2 g1;
                       g3 = after (max 200 (1000 - self_level * 10)) Create_enemy g2
                   in Inr (g3, rs2))))"

section \<open>Observations and an example game\<close>

text \<open>
  \<^verbatim>\<open>game_over_win\<close> writes its message on the canvas: a step from \<open>g\<close> to \<open>g'\<close> has
  called it when the texts of \<open>g'\<close> are those \<^verbatim>\<open>game_over_win\<close> leaves.
\<close>

definition triggers_win :: "TurtleAdventureGame \<Rightarrow> TurtleAdventureGame \<Rightarrow> bool" where
  "triggers_win g g' = (canvas_texts g' = canvas_texts (game_over_win g))"

text \<open>
  A game of level 1 on a screen of 800 by 500, as \<^verbatim>\<open>init_game\<close> lays it out: the home
  at \<open>(screen_width - 100, screen_height // 2)\<close> with size 20, the player at
  \<open>(50, screen_height // 2)\<close> with the default speed 5, the waypoint inactive.
\<close>

definition example_game :: TurtleAdventureGame where
  "example_game =
     \<lparr>level = 1, screen_width = 800, screen_height = 500,
      waypoint = \<lparr>pos_x = 0, pos_y = 0, is_active = False\<rparr>,
      player = \<lparr>player_speed = 5, turtle = \<lparr>xcor = 50, ycor = 250, heading = 0\<rparr>\<rparr>,
      home = \<lparr>pos_x = 700, pos_y = 250, home_size = 20\<rparr>,
      enemies = [], enemy_generator = \<lparr>generator_level = 1\<rparr>,
      winfo_width = 800, winfo_height = 500,
      elements = [WaypointElement, GameHomeElement, PlayerElement],
      running = True, canvas_texts = [], scheduled = []\<rparr>"

text \<open>The same game for a generator of another level.\<close>

definition game_of_level :: "int \<Rightarrow> TurtleAdventureGame" where
  "game_of_level n = example_game\<lparr>level := n, enemy_generator := \<lparr>generator_level = n\<rparr>\<rparr>"

text \<open>The same game with the player's turtle put at a point.\<close>

definition player_at :: "real \<Rightarrow> real \<Rightarrow> TurtleAdventureGame \<Rightarrow> TurtleAdventureGame" where
  "player_at x y g = g\<lparr>player := (player g)\<lparr>turtle := (turtle (player g))\<lparr>xcor := x, ycor := y\<rparr>\<rparr>\<rparr>"

text \<open>The example game after a click at (57, 250), 7 to the right of the player.\<close>

definition waypoint_game :: TurtleAdventureGame where
  "waypoint_game = example_game\<lparr>waypoint := \<lparr>pos_x = 57, pos_y = 250, is_active = True\<rparr>\<rparr>"

text \<open>
  A chasing enemy one step under the player of the example game (which is at
  (50, 250)) and a boss one step to the left of it.
\<close>

definition chaser_below :: ChasingEnemy where
  "chaser_below = (ChasingEnemy_init 20 ''red'')\<lparr>pos_x := 50, pos_y := 249\<rparr>"

definition boss_left :: BossEnemy where
  "boss_left = (fst (BossEnemy_init example_game 20 ''black''))\<lparr>pos_x := 49, pos_y := 250\<rparr>"

text \<open>
  A random-walk enemy one unit left of the right edge of the canvas of the example
  game, walking to the right.
\<close>

definition walker_at_edge :: RandomWalkEnemy where
  "walker_at_edge =
     Enemy.extend ((Enemy_init 20 ''green'')\<lparr>pos_x := 799, pos_y := 100\<rparr>)
       \<lparr>state_x = Moving_right, state_y = Moving_up, walk_speed = 3\<rparr>"

text \<open>
  What holds of a fencing enemy from its constructor on: it keeps its speed 5, its
  offset 50 and its four directions, it is within 55 of the home on both axes, and on
  each leg it has not yet passed the line where it turns.
\<close>

definition fencing_inv :: "Home \<Rightarrow> FencingEnemy \<Rightarrow> bool" where
  "fencing_inv h e =
     (fencing_speed e = 5 \<and> distance_from_home e = 50 \<and>
      directions e = [''right'', ''down'', ''left'', ''up''] \<and>
      \<bar>pos_x e - pos_x h\<bar> \<le> 55 \<and> \<bar>pos_y e - pos_y h\<bar> \<le> 55 \<and>
      (current_direction_index e = 0 \<and> pos_x e \<le> pos_x h + 50 \<and> pos_y e \<le> pos_y h + 50 \<or>
       current_direction_index e = 1 \<and> pos_y e \<le> pos_y h + 50 \<and> pos_x h - 50 \<le> pos_x e \<or>
       current_direction_index e = 2 \<and> pos_x h - 50 \<le> pos_x e \<and> pos_y h - 50 \<le> pos_y e \<or>
       current_direction_index e = 3 \<and> pos_y h - 50 \<le> pos_y e \<and> pos_x e \<le> pos_x h + 50))"

text \<open>
  The example game after \<^verbatim>\<open>generate_fake_homes\<close> has run on the draws
  50, 250, 1, 2, ..., 8: the first decoy is where the player stands.
\<close>

definition decoy_game :: TurtleAdventureGame where
  "decoy_game =
     example_game\<lparr>elements :=
       [WaypointElement, GameHomeElement, PlayerElement,
        HomeElement \<lparr>pos_x = 50, pos_y = 250, home_size = 20\<rparr>,
        HomeElement \<lparr>pos_x = 1, pos_y = 2, home_size = 20\<rparr>,
        HomeElement \<lparr>pos_x = 3, pos_y = 4, home_size = 20\<rparr>,
        HomeElement \<lparr>pos_x = 5, pos_y = 6, home_size = 20\<rparr>,
        HomeElement \<lparr>pos_x = 7, pos_y = 8, home_size = 20\<rparr>]\<rparr>"

section \<open>Containment and collision boxes\<close>

text \<open>
  C2 (as the code has it). \<^verbatim>\<open>Home.contains(x, y)\<close> is true exactly when the point lies in the
  closed box of side \<open>size\<close> centred at the home, edges included.
  \<^verbatim>\<open>Enemy.hits_player\<close> is true exactly when the player lies in the open box of side
  \<open>size\<close> centred at the enemy, edges excluded.
\<close>

theorem containment_boxes:
  "(Home_contains h x y \<longleftrightarrow>
      x \<in> {pos_x h - home_size h / 2 .. pos_x h + home_size h / 2} \<and>
      y \<in> {pos_y h - home_size h / 2 .. pos_y h + home_size h / 2}) \<and>
   (hits_player e sz g \<longleftrightarrow>
      player_x g \<in> {pos_x e - sz / 2 <..< pos_x e + sz / 2} \<and>
      player_y g \<in> {pos_y e - sz / 2 <..< pos_y e + sz / 2})"
  by (simp add: Home_contains_def hits_player_def Let_def)

text \<open>
  With an enemy of size 20 at (700, 250) and the player at (710, 250), on the right
  edge of the enemy's box, the player is in the closed box and is not hit.
\<close>

theorem hits_player_edge_counterexample:
  "player_x (player_at 710 250 example_game) \<in> {700 - 20 / 2 .. 700 + 20 / 2} \<and>
   player_y (player_at 710 250 example_game) \<in> {250 - 20 / 2 .. 250 + 20 / 2} \<and>
   \<not> hits_player \<lparr>pos_x = 700, pos_y = 250\<rparr> 20 (player_at 710 250 example_game)"
  by (simp add: hits_player_def player_x_def player_y_def player_at_def example_game_def)

section \<open>The player's update\<close>

lemma Player_update_idle:
  "\<not> is_active (waypoint g) \<Longrightarrow> \<not> Home_contains (home g) (player_x g) (player_y g) \<Longrightarrow>
   Player_update g = g"
  by (simp add: Player_update_def Let_def)

text \<open>
  C9. When the waypoint is inactive and the player is outside the home's box,
  \<^verbatim>\<open>Player.update\<close> changes neither the player's coordinates nor the waypoint; it
  changes nothing at all.
\<close>

theorem Player_update_inactive_frame:
  assumes "\<not> is_active (waypoint g)"
    and "\<not> Home_contains (home g) (player_x g) (player_y g)"
  shows "player_x (Player_update g) = player_x g \<and>
         player_y (Player_update g) = player_y g \<and>
         waypoint (Player_update g) = waypoint g \<and>
         Player_update g = g"
  using assms by (simp add: Player_update_idle)

theorem Player_update_inactive_frame_witness:
  "\<not> is_active (waypoint example_game) \<and>
   \<not> Home_contains (home example_game) (player_x example_game) (player_y example_game) \<and>
   player_x (Player_update example_game) = 50 \<and>
   player_y (Player_update example_game) = 250 \<and>
   waypoint (Player_update example_game) = \<lparr>pos_x = 0, pos_y = 0, is_active = False\<rparr>"
proof -
  have a: "\<not> is_active (waypoint example_game)"
    by (simp add: example_game_def)
  have b: "\<not> Home_contains (home example_game) (player_x example_game) (player_y example_game)"
    by (simp add: example_game_def Home_contains_def player_x_def player_y_def)
  show ?thesis
    using a b Player_update_inactive_frame [OF a b]
    by (simp add: example_game_def player_x_def player_y_def)
qed

lemma Player_update_texts:
  "canvas_texts (Player_update g) =
     (if Home_contains (home g) (player_x g) (player_y g)
      then canvas_texts (game_over_win g) else canvas_texts g)"
  by (simp add: Player_update_def Let_def)

lemma game_over_win_texts: "canvas_texts (game_over_win g) \<noteq> canvas_texts g"
  by (simp add: game_over_win_def stop_def Let_def)

lemma Player_update_triggers_win:
  "triggers_win g (Player_update g) \<longleftrightarrow> Home_contains (home g) (player_x g) (player_y g)"
  using game_over_win_texts [of g]
  by (auto simp add: triggers_win_def Player_update_texts)

lemma Player_update_elements:
  "Player_update (g\<lparr>elements := es\<rparr>) = (Player_update g)\<lparr>elements := es\<rparr>"
  by (simp add: Player_update_def Let_def game_over_win_def stop_def player_x_def player_y_def)

section \<open>Fake homes\<close>

lemma fake_homes_loop_numeral:
  "fake_homes_loop (numeral k) cw ch g rs =
     and_then (randint 0 cw rs) (\<lambda>(fx, rs1).
     and_then (randint 0 ch rs1) (\<lambda>(fy, rs2).
       fake_homes_loop (pred_numeral k) cw ch
         (add_element (HomeElement (Home_init (fx, fy) 20)) g) rs2))"
  by (simp add: numeral_eq_Suc)

lemma fake_homes_loop_elements:
  "fake_homes_loop n cw ch g rs = Inr (g', rs') \<Longrightarrow>
   \<exists>hs. g' = g\<lparr>elements := elements g @ map HomeElement hs\<rparr> \<and> length hs = n \<and>
        (\<forall>h \<in> set hs. home_size h = 20)"
proof (induction n arbitrary: g rs)
  case 0
  then show ?case by simp
next
  case (Suc n)
  from Suc.prems obtain fx rs1 fy rs2 where
    step: "fake_homes_loop n cw ch
             (add_element (HomeElement (Home_init (fx, fy) 20)) g) rs2 = Inr (g', rs')"
    by (auto simp: and_then_def split: sum.splits prod.splits)
  from Suc.IH [OF step] obtain hs where
    hs: "g' = (add_element (HomeElement (Home_init (fx, fy) 20)) g)
               \<lparr>elements := elements (add_element (HomeElement (Home_init (fx, fy) 20)) g)
                   @ map HomeElement hs\<rparr>"
      "length hs = n" "\<forall>h \<in> set hs. home_size h = 20"
    by blast
  have "g' = g\<lparr>elements := elements g @ map HomeElement (Home_init (fx, fy) 20 # hs)\<rparr>"
    using hs(1) by (simp add: add_element_def)
  moreover have "length (Home_init (fx, fy) 20 # hs) = Suc n"
    using hs(2) by simp
  moreover have "\<forall>h \<in> set (Home_init (fx, fy) 20 # hs). home_size h = 20"
    using hs(3) by (simp add: Home_init_def)
  ultimately show ?case by blast
qed

lemma generate_fake_homes_elements:
  "generate_fake_homes b g rs = Inr (g', rs') \<Longrightarrow>
   \<exists>hs. g' = g\<lparr>elements := elements g @ map HomeElement hs\<rparr> \<and>
        length hs = num_fake_homes b \<and> (\<forall>h \<in> set hs. home_size h = 20)"
  unfolding generate_fake_homes_def Let_def by (rule fake_homes_loop_elements)

text \<open>
  C10. \<^verbatim>\<open>Player.update\<close> calls \<^verbatim>\<open>game_over_win\<close> if and only if the home of the game
  contains the player's position. The list of elements, where the decoys are, is never
  read: the update commutes with any change of it, and after \<^verbatim>\<open>generate_fake_homes\<close>
  the home of the game is the same and decides the win as before.
\<close>

theorem fake_homes_never_win:
  "(triggers_win g (Player_update g) \<longleftrightarrow> Home_contains (home g) (player_x g) (player_y g)) \<and>
   Player_update (g\<lparr>elements := es\<rparr>) = (Player_update g)\<lparr>elements := es\<rparr> \<and>
   (generate_fake_homes b g rs = Inr (g', rs') \<longrightarrow>
      home g' = home g \<and>
      (triggers_win g' (Player_update g') \<longleftrightarrow>
         Home_contains (home g) (player_x g) (player_y g)))"
proof (intro conjI impI)
  show "triggers_win g (Player_update g) \<longleftrightarrow> Home_contains (home g) (player_x g) (player_y g)"
    by (rule Player_update_triggers_win)
  show "Player_update (g\<lparr>elements := es\<rparr>) = (Player_update g)\<lparr>elements := es\<rparr>"
    by (rule Player_update_elements)
next
  assume gen: "generate_fake_homes b g rs = Inr (g', rs')"
  then obtain hs where g': "g' = g\<lparr>elements := elements g @ map HomeElement hs\<rparr>"
    using generate_fake_homes_elements by blast
  show "home g' = home g" by (simp add: g')
  show "triggers_win g' (Player_update g') \<longleftrightarrow>
        Home_contains (home g) (player_x g) (player_y g)"
    by (simp add: Player_update_triggers_win g' player_x_def player_y_def)
qed

lemma decoy_game_generated:
  "generate_fake_homes (fst (BossEnemy_init example_game 20 ''black'')) example_game
     [50, 250, 1, 2, 3, 4, 5, 6, 7, 8] = Inr (decoy_game, [])"
  by (simp add: generate_fake_homes_def BossEnemy_init_def Enemy.extend_def Enemy_init_def
      example_game_def decoy_game_def fake_homes_loop_numeral and_then_def randint_def
      Home_init_def add_element_def)

theorem fake_homes_never_win_witness:
  "generate_fake_homes (fst (BossEnemy_init example_game 20 ''black'')) example_game
     [50, 250, 1, 2, 3, 4, 5, 6, 7, 8] = Inr (decoy_game, []) \<and>
   HomeElement \<lparr>pos_x = 50, pos_y = 250, home_size = 20\<rparr> \<in> set (elements decoy_game) \<and>
   Home_contains \<lparr>pos_x = 50, pos_y = 250, home_size = 20\<rparr>
     (player_x decoy_game) (player_y decoy_game) \<and>
   \<not> triggers_win decoy_game (Player_update decoy_game)"
proof -
  have out: "\<not> Home_contains (home example_game) (player_x example_game) (player_y example_game)"
    by (simp add: example_game_def Home_contains_def player_x_def player_y_def)
  have "\<not> triggers_win decoy_game (Player_update decoy_game)"
    using fake_homes_never_win
      [of example_game "[]" "fst (BossEnemy_init example_game 20 ''black'')"
          "[50, 250, 1, 2, 3, 4, 5, 6, 7, 8]" decoy_game "[]"]
      decoy_game_generated out
    by simp
  moreover have "HomeElement \<lparr>pos_x = 50, pos_y = 250, home_size = 20\<rparr> \<in> set (elements decoy_game)"
    by (simp add: decoy_game_def)
  moreover have "Home_contains \<lparr>pos_x = 50, pos_y = 250, home_size = 20\<rparr>
     (player_x decoy_game) (player_y decoy_game)"
    by (simp add: decoy_game_def example_game_def Home_contains_def player_x_def player_y_def)
  ultimately show ?thesis using decoy_game_generated by simp
qed

section \<open>What the enemy generator changes\<close>

lemma FencingEnemy_update_game:
  "FencingEnemy_update g e = Inr (e', g') \<Longrightarrow> g' = g \<or> g' = game_over_lose g"
  unfolding FencingEnemy_update_def and_then_def
  by (cases "py_index (directions e) (current_direction_index e)") (auto simp: Let_def split: if_splits)

lemma FencingEnemy_init_game:
  "FencingEnemy_init g sz col = Inr (e', g') \<Longrightarrow> g' = g \<or> g' = game_over_lose g"
  unfolding FencingEnemy_init_def Let_def by (rule FencingEnemy_update_game)

text \<open>What the first half of \<^verbatim>\<open>create_enemy\<close> may change of the game.\<close>

lemma new_enemy_of_level_frame:
  assumes "new_enemy_of_level g rs = Inr (e, g1, rs1)"
  shows "\<exists>es r ts. g1 = g\<lparr>elements := es, running := r, canvas_texts := ts\<rparr>"
proof -
  have same: "\<exists>es r ts. g = g\<lparr>elements := es, running := r, canvas_texts := ts\<rparr>"
    by (rule exI [of _ "elements g"], rule exI [of _ "running g"],
        rule exI [of _ "canvas_texts g"]) simp
  consider (rw) "generator_level (enemy_generator g) mod 4 = 1"
    | (ch) "generator_level (enemy_generator g) mod 4 = 2"
    | (fe) "generator_level (enemy_generator g) mod 4 = 3"
    | (bo) "generator_level (enemy_generator g) mod 4 \<noteq> 1"
           "generator_level (enemy_generator g) mod 4 \<noteq> 2"
           "generator_level (enemy_generator g) mod 4 \<noteq> 3"
    by blast
  then show ?thesis
  proof cases
    case rw
    with assms have "g1 = g"
      by (auto simp: new_enemy_of_level_def and_then_def Let_def split: sum.splits)
    with same show ?thesis by simp
  next
    case ch
    with assms have "g1 = g"
      by (auto simp: new_enemy_of_level_def and_then_def Let_def split: sum.splits)
    with same show ?thesis by simp
  next
    case fe
    with assms obtain f where "FencingEnemy_init g 20 ''blue'' = Inr (f, g1)"
      by (auto simp: new_enemy_of_level_def and_then_def Let_def split: sum.splits)
    then have "g1 = g \<or> g1 = game_over_lose g" by (rule FencingEnemy_init_game)
    then show ?thesis
    proof
      assume "g1 = g" with same show ?thesis by simp
    next
      assume "g1 = game_over_lose g"
      then have "g1 = g\<lparr>elements := elements g, running := False,
                        canvas_texts := canvas_texts (game_over_lose g)\<rparr>"
        by (simp add: game_over_lose_def stop_def Let_def)
      then show ?thesis by blast
    qed
  next
    case bo
    with assms obtain b rs2 where "generate_fake_homes b g rs2 = Inr (g1, rs1)"
      by (auto simp: new_enemy_of_level_def and_then_def Let_def BossEnemy_init_def
          split: sum.splits prod.splits)
    then obtain hs where "g1 = g\<lparr>elements := elements g @ map HomeElement hs\<rparr>"
      using generate_fake_homes_elements by blast
    then have "g1 = g\<lparr>elements := elements g @ map HomeElement hs, running := running g,
                      canvas_texts := canvas_texts g\<rparr>"
      by simp
    then show ?thesis by blast
  qed
qed

lemma create_enemy_result:
  assumes "create_enemy g rs = Inr (g', rs')"
  shows "\<exists>e g1 rs1 x y.
           new_enemy_of_level g rs = Inr (e, g1, rs1) \<and>
           g' = after (max 200 (1000 - generator_level (enemy_generator g) * 10)) Create_enemy
                  (add_enemy (set_y y (set_x x e)) g1) \<and>
           (if generator_level (enemy_generator g) mod 4 = 3
            then (x, y) = (pos_x (home g1) + 50, pos_y (home g1) + 50) \<and> rs' = rs1
            else spawn_loop (int (winfo_width g)) (int (winfo_height g)) (player_x g) (player_y g)
                   (max (250 - generator_level (enemy_generator g) * 10) 100) rs1
                 = Inr ((x, y), rs'))"
  using assms
  by (auto simp: create_enemy_def and_then_def Let_def split: sum.splits prod.splits if_splits)

section \<open>Where the generator puts the enemy\<close>

lemma le_sqrt_iff: "0 \<le> m \<Longrightarrow> m \<le> sqrt a \<longleftrightarrow> m\<^sup>2 \<le> a"
proof -
  assume m: "0 \<le> m"
  then have "m \<le> sqrt a \<longleftrightarrow> sqrt (m\<^sup>2) \<le> sqrt a" by simp
  also have "\<dots> \<longleftrightarrow> m\<^sup>2 \<le> a" by (rule real_sqrt_le_iff)
  finally show ?thesis .
qed

lemma spawn_loop_Nil:
  "spawn_loop cw ch px py md [] = (if cw < 0 then Inl ValueError else Inl OutOfDraws)"
  by (subst spawn_loop.simps) (simp add: randint_def)

lemma spawn_loop_single:
  "spawn_loop cw ch px py md [r] =
     (if cw < 0 \<or> ch < 0 then Inl ValueError else Inl OutOfDraws)"
  by (subst spawn_loop.simps) (simp add: randint_def)

lemma spawn_loop_Cons:
  "0 \<le> cw \<Longrightarrow> 0 \<le> ch \<Longrightarrow>
   spawn_loop cw ch px py md (r1 # r2 # rs) =
     (if real_of_int md \<le>
           sqrt ((real_of_int (int (r1 mod nat (cw + 1))) - px)\<^sup>2 +
                 (real_of_int (int (r2 mod nat (ch + 1))) - py)\<^sup>2)
      then Inr ((real_of_int (int (r1 mod nat (cw + 1))),
                 real_of_int (int (r2 mod nat (ch + 1)))), rs)
      else spawn_loop cw ch px py md rs)"
  by (subst spawn_loop.simps) (simp add: randint_def Let_def)

lemma randint_range:
  assumes "randint a b rs = Inr (v, rs')"
  shows "a \<le> v \<and> v \<le> b \<and> (\<exists>r. rs = r # rs')"
proof -
  from assms have ab: "a \<le> b"
    by (auto simp: randint_def split: if_splits)
  with assms obtain r where r: "rs = r # rs'" "v = a + int (r mod nat (b - a + 1))"
    by (auto simp: randint_def split: list.splits)
  have "r mod nat (b - a + 1) < nat (b - a + 1)"
    using ab by (intro mod_less_divisor) simp
  then have "int (r mod nat (b - a + 1)) < b - a + 1"
    using ab by linarith
  with r show ?thesis by simp
qed

lemma spawn_loop_far:
  "spawn_loop cw ch px py md rs = Inr ((x, y), rs') \<Longrightarrow>
   real_of_int md \<le> sqrt ((x - px)\<^sup>2 + (y - py)\<^sup>2) \<and>
   (\<exists>ix iy. x = real_of_int ix \<and> y = real_of_int iy \<and>
            0 \<le> ix \<and> ix \<le> cw \<and> 0 \<le> iy \<and> iy \<le> ch)"
proof (induction cw ch px py md rs rule: spawn_loop.induct)
  case (1 cw ch px py md rs)
  from "1.prems" obtain ix rs1 where rx: "randint 0 cw rs = Inr (ix, rs1)"
    by (subst (asm) spawn_loop.simps) (auto split: sum.splits)
  from "1.prems" rx obtain iy rs2 where ry: "randint 0 ch rs1 = Inr (iy, rs2)"
    by (subst (asm) spawn_loop.simps) (auto split: sum.splits)
  have bx: "0 \<le> ix \<and> ix \<le> cw"
    using randint_range [OF rx] by simp
  have "0 \<le> iy \<and> iy \<le> ch"
    using randint_range [OF ry] by simp
  note bounds = bx this
  show ?case
  proof (cases "real_of_int md \<le> sqrt ((real_of_int ix - px)\<^sup>2 + (real_of_int iy - py)\<^sup>2)")
    case True
    with "1.prems" rx ry have "x = real_of_int ix" "y = real_of_int iy"
      by (subst (asm) spawn_loop.simps, simp add: Let_def)+
    with True bounds show ?thesis by blast
  next
    case False
    with "1.prems" rx ry have "spawn_loop cw ch px py md rs2 = Inr ((x, y), rs')"
      by (subst (asm) spawn_loop.simps) (simp add: Let_def)
    with "1.IH" [OF rx refl ry refl refl] False show ?thesis by simp
  qed
qed


lemma spawn_loop_finds:
  assumes "0 \<le> cw" "0 \<le> ch" "even (length pre)"
    and "real_of_int md \<le>
           sqrt ((real_of_int (int (r1 mod nat (cw + 1))) - px)\<^sup>2 +
                 (real_of_int (int (r2 mod nat (ch + 1))) - py)\<^sup>2)"
  shows "\<exists>p rs'. spawn_loop cw ch px py md (pre @ r1 # r2 # post) = Inr (p, rs')"
  using assms(3)
proof (induction pre rule: induct_list012)
  case 1
  show ?case using assms(1,2,4) by (simp add: spawn_loop_Cons)
next
  case (2 x)
  then show ?case by simp
next
  case (3 x y zs)
  then have "\<exists>p rs'. spawn_loop cw ch px py md (zs @ r1 # r2 # post) = Inr (p, rs')"
    by simp
  then show ?case using assms(1,2) by (simp add: spawn_loop_Cons)
qed

lemma get_set_xy: "get_x (set_y y (set_x x e)) = x" "get_y (set_y y (set_x x e)) = y"
  by (cases e; simp add: get_x_def get_y_def set_x_def set_y_def)+

lemma create_enemy_enemies:
  assumes "create_enemy g rs = Inr (g', rs')"
  shows "\<exists>e0 g1 rs1 x y.
           new_enemy_of_level g rs = Inr (e0, g1, rs1) \<and>
           enemies g' = enemies g @ [set_y y (set_x x e0)] \<and>
           elements g' = elements g1 @ [EnemyElement (length (enemies g))] \<and>
           scheduled g' = scheduled g @
             [(max 200 (1000 - generator_level (enemy_generator g) * 10), Create_enemy)] \<and>
           (if generator_level (enemy_generator g) mod 4 = 3
            then x = pos_x (home g) + 50 \<and> y = pos_y (home g) + 50 \<and> rs' = rs1
            else spawn_loop (int (winfo_width g)) (int (winfo_height g)) (player_x g) (player_y g)
                   (max (250 - generator_level (enemy_generator g) * 10) 100) rs1
                 = Inr ((x, y), rs'))"
proof -
  from create_enemy_result [OF assms] obtain e0 g1 rs1 x y where
    ne: "new_enemy_of_level g rs = Inr (e0, g1, rs1)" and
    g': "g' = after (max 200 (1000 - generator_level (enemy_generator g) * 10)) Create_enemy
                  (add_enemy (set_y y (set_x x e0)) g1)" and
    sp: "if generator_level (enemy_generator g) mod 4 = 3
            then (x, y) = (pos_x (home g1) + 50, pos_y (home g1) + 50) \<and> rs' = rs1
            else spawn_loop (int (winfo_width g)) (int (winfo_height g)) (player_x g) (player_y g)
                   (max (250 - generator_level (enemy_generator g) * 10) 100) rs1
                 = Inr ((x, y), rs')"
    by blast
  from new_enemy_of_level_frame [OF ne] obtain es r ts where
    g1: "g1 = g\<lparr>elements := es, running := r, canvas_texts := ts\<rparr>" by blast
  have "enemies g' = enemies g @ [set_y y (set_x x e0)]"
    by (simp add: g' g1 after_def add_enemy_def add_element_def)
  moreover have "elements g' = elements g1 @ [EnemyElement (length (enemies g))]"
    by (simp add: g' g1 after_def add_enemy_def add_element_def)
  moreover have "scheduled g' = scheduled g @
             [(max 200 (1000 - generator_level (enemy_generator g) * 10), Create_enemy)]"
    by (simp add: g' g1 after_def add_enemy_def add_element_def)
  moreover have "home g1 = home g" by (simp add: g1)
  ultimately show ?thesis using ne sp by (auto split: if_splits)
qed

lemma spawn_loop_first:
  assumes "0 \<le> cw" "0 \<le> ch" "even (length pre)"
    and "\<forall>k. 2 * k + 1 < length pre \<longrightarrow>
           sqrt ((real_of_int (int (pre ! (2 * k) mod nat (cw + 1))) - px)\<^sup>2 +
                 (real_of_int (int (pre ! (2 * k + 1) mod nat (ch + 1))) - py)\<^sup>2)
             < real_of_int md"
    and "real_of_int md \<le>
           sqrt ((real_of_int (int (r1 mod nat (cw + 1))) - px)\<^sup>2 +
                 (real_of_int (int (r2 mod nat (ch + 1))) - py)\<^sup>2)"
  shows "spawn_loop cw ch px py md (pre @ r1 # r2 # post) =
           Inr ((real_of_int (int (r1 mod nat (cw + 1))),
                 real_of_int (int (r2 mod nat (ch + 1)))), post)"
  using assms(3,4)
proof (induction pre rule: induct_list012)
  case 1
  show ?case using assms(1,2,5) by (simp add: spawn_loop_Cons)
next
  case (2 x)
  then show ?case by simp
next
  case (3 x y zs)
  from "3.prems"(2) have "2 * 0 + 1 < length (x # y # zs) \<longrightarrow>
      sqrt ((real_of_int (int ((x # y # zs) ! (2 * 0) mod nat (cw + 1))) - px)\<^sup>2 +
            (real_of_int (int ((x # y # zs) ! (2 * 0 + 1) mod nat (ch + 1))) - py)\<^sup>2)
        < real_of_int md"
    by (rule spec)
  then have rej: "\<not> real_of_int md \<le>
      sqrt ((real_of_int (int (x mod nat (cw + 1))) - px)\<^sup>2 +
            (real_of_int (int (y mod nat (ch + 1))) - py)\<^sup>2)"
    by simp
  have rest: "\<forall>k. 2 * k + 1 < length zs \<longrightarrow>
           sqrt ((real_of_int (int (zs ! (2 * k) mod nat (cw + 1))) - px)\<^sup>2 +
                 (real_of_int (int (zs ! (2 * k + 1) mod nat (ch + 1))) - py)\<^sup>2)
             < real_of_int md"
  proof (intro allI impI)
    fix k assume k: "2 * k + 1 < length zs"
    from "3.prems"(2) have "2 * Suc k + 1 < length (x # y # zs) \<longrightarrow>
      sqrt ((real_of_int (int ((x # y # zs) ! (2 * Suc k) mod nat (cw + 1))) - px)\<^sup>2 +
            (real_of_int (int ((x # y # zs) ! (2 * Suc k + 1) mod nat (ch + 1))) - py)\<^sup>2)
        < real_of_int md"
      by (rule spec)
    with k show "sqrt ((real_of_int (int (zs ! (2 * k) mod nat (cw + 1))) - px)\<^sup>2 +
                 (real_of_int (int (zs ! (2 * k + 1) mod nat (ch + 1))) - py)\<^sup>2)
             < real_of_int md"
      by simp
  qed
  from "3.prems"(1) have "even (length zs)" by simp
  from "3.IH"(1) [OF this rest] rej assms(1,2) show ?case
    by (simp add: spawn_loop_Cons)
qed

lemma create_enemy_first_far:
  assumes "generator_level (enemy_generator g) mod 4 \<noteq> 3"
    and ne: "new_enemy_of_level g rs = Inr (e0, g1, pre @ r1 # r2 # post)"
    and ev: "even (length pre)"
    and rej: "\<forall>k. 2 * k + 1 < length pre \<longrightarrow>
           sqrt ((real (pre ! (2 * k) mod (winfo_width g + 1)) - player_x g)\<^sup>2 +
                 (real (pre ! (2 * k + 1) mod (winfo_height g + 1)) - player_y g)\<^sup>2)
             < real_of_int (max (250 - 10 * generator_level (enemy_generator g)) 100)"
    and acc: "real_of_int (max (250 - 10 * generator_level (enemy_generator g)) 100)
      \<le> sqrt ((real (r1 mod (winfo_width g + 1)) - player_x g)\<^sup>2 +
               (real (r2 mod (winfo_height g + 1)) - player_y g)\<^sup>2)"
  shows "\<exists>g''. create_enemy g rs = Inr (g'', post) \<and>
           enemies g'' = enemies g @
             [set_y (real (r2 mod (winfo_height g + 1)))
                (set_x (real (r1 mod (winfo_width g + 1))) e0)]"
proof -
  have n1: "nat (int (winfo_width g) + 1) = winfo_width g + 1"
    and n2: "nat (int (winfo_height g) + 1) = winfo_height g + 1" by simp_all
  from rej have rej': "\<forall>k. 2 * k + 1 < length pre \<longrightarrow>
           sqrt ((real_of_int (int (pre ! (2 * k) mod nat (int (winfo_width g) + 1))) - player_x g)\<^sup>2 +
                 (real_of_int (int (pre ! (2 * k + 1) mod nat (int (winfo_height g) + 1))) - player_y g)\<^sup>2)
             < real_of_int (max (250 - generator_level (enemy_generator g) * 10) 100)"
    by (simp only: n1 n2 mult.commute of_int_of_nat_eq)
  from acc have acc': "real_of_int (max (250 - generator_level (enemy_generator g) * 10) 100)
      \<le> sqrt ((real_of_int (int (r1 mod nat (int (winfo_width g) + 1))) - player_x g)\<^sup>2 +
               (real_of_int (int (r2 mod nat (int (winfo_height g) + 1))) - player_y g)\<^sup>2)"
    by (simp only: n1 n2 mult.commute of_int_of_nat_eq)
  have sp: "spawn_loop (int (winfo_width g)) (int (winfo_height g)) (player_x g) (player_y g)
       (max (250 - generator_level (enemy_generator g) * 10) 100) (pre @ r1 # r2 # post)
     = Inr ((real (r1 mod (winfo_width g + 1)), real (r2 mod (winfo_height g + 1))), post)"
    using spawn_loop_first [OF _ _ ev rej' acc', of post]
    by (simp only: n1 n2 of_int_of_nat_eq)
  from new_enemy_of_level_frame [OF ne] obtain es r ts where
    g1: "g1 = g\<lparr>elements := es, running := r, canvas_texts := ts\<rparr>" by blast
  have "create_enemy g rs =
          Inr (after (max 200 (1000 - generator_level (enemy_generator g) * 10)) Create_enemy
                 (add_enemy (set_y (real (r2 mod (winfo_height g + 1)))
                    (set_x (real (r1 mod (winfo_width g + 1))) e0)) g1), post)"
    using assms(1) ne sp by (simp add: create_enemy_def and_then_def Let_def)
  moreover have "enemies (after (max 200 (1000 - generator_level (enemy_generator g) * 10)) Create_enemy
                 (add_enemy (set_y (real (r2 mod (winfo_height g + 1)))
                    (set_x (real (r1 mod (winfo_width g + 1))) e0)) g1))
        = enemies g @ [set_y (real (r2 mod (winfo_height g + 1)))
                (set_x (real (r1 mod (winfo_width g + 1))) e0)]"
    by (simp add: g1 after_def add_enemy_def add_element_def)
  ultimately show ?thesis by simp
qed

text \<open>Rules to run \<^verbatim>\<open>create_enemy\<close> on a given game and given draws.\<close>

lemma sqrt_less_iff: "0 \<le> m \<Longrightarrow> sqrt a < m \<longleftrightarrow> a < m\<^sup>2"
  using le_sqrt_iff [of m a] by (simp add: not_le [symmetric])

lemmas create_enemy_eval =
  create_enemy_def new_enemy_of_level_def and_then_def Let_def
  game_of_level_def example_game_def player_at_def player_x_def player_y_def
  add_enemy_def add_element_def after_def set_x_def set_y_def get_x_def get_y_def
  spawn_loop_Cons spawn_loop_Nil le_sqrt_iff sqrt_less_iff randint_def choice_def
  Enemy_init_def Enemy.extend_def ChasingEnemy_init_def

lemmas fencing_eval =
  FencingEnemy_init_def FencingEnemy_update_def py_index_def hits_player_def
  game_over_lose_def stop_def

lemmas boss_eval =
  BossEnemy_init_def generate_fake_homes_def fake_homes_loop_numeral Home_init_def

text \<open>
  C1 (as the code has it). When the level modulo 4 is not 3 and \<^verbatim>\<open>create_enemy\<close> returns, the
  new enemy is at a point whose Euclidean distance from the player is at least
  \<open>min_distance = max(250 - 10 * level, 100)\<close>. When the level modulo 4 is 3 the
  fencing enemy is put at \<open>(home.x + 50, home.y + 50)\<close>, wherever the player is. The
  loop that draws the point ends as soon as a pair of draws is far enough: when the
  draws left after the enemy is made hold such a pair, \<^verbatim>\<open>create_enemy\<close> returns; and
  when every pair before it is nearer than \<open>min_distance\<close>, the enemy is put at the
  point of that first pair and the draws after it are left unused.
\<close>

theorem create_enemy_spawn_distance:
  "(generator_level (enemy_generator g) mod 4 \<noteq> 3 \<and> create_enemy g rs = Inr (g', rs') \<longrightarrow>
      (\<exists>e. enemies g' = enemies g @ [e] \<and>
           real_of_int (max (250 - 10 * generator_level (enemy_generator g)) 100)
             \<le> sqrt ((get_x e - player_x g)\<^sup>2 + (get_y e - player_y g)\<^sup>2))) \<and>
   (generator_level (enemy_generator g) mod 4 = 3 \<and> create_enemy g rs = Inr (g', rs') \<longrightarrow>
      (\<exists>e. enemies g' = enemies g @ [e] \<and>
           get_x e = pos_x (home g) + 50 \<and> get_y e = pos_y (home g) + 50)) \<and>
   (generator_level (enemy_generator g) mod 4 \<noteq> 3 \<and>
    new_enemy_of_level g rs = Inr (e0, g1, pre @ r1 # r2 # post) \<and> even (length pre) \<and>
    real_of_int (max (250 - 10 * generator_level (enemy_generator g)) 100)
      \<le> sqrt ((real (r1 mod (winfo_width g + 1)) - player_x g)\<^sup>2 +
               (real (r2 mod (winfo_height g + 1)) - player_y g)\<^sup>2) \<longrightarrow>
      (\<exists>g'' rs''. create_enemy g rs = Inr (g'', rs''))) \<and>
   (generator_level (enemy_generator g) mod 4 \<noteq> 3 \<and>
    new_enemy_of_level g rs = Inr (e0, g1, pre @ r1 # r2 # post) \<and> even (length pre) \<and>
    (\<forall>k. 2 * k + 1 < length pre \<longrightarrow>
       sqrt ((real (pre ! (2 * k) mod (winfo_width g + 1)) - player_x g)\<^sup>2 +
             (real (pre ! (2 * k + 1) mod (winfo_height g + 1)) - player_y g)\<^sup>2)
         < real_of_int (max (250 - 10 * generator_level (enemy_generator g)) 100)) \<and>
    real_of_int (max (250 - 10 * generator_level (enemy_generator g)) 100)
      \<le> sqrt ((real (r1 mod (winfo_width g + 1)) - player_x g)\<^sup>2 +
               (real (r2 mod (winfo_height g + 1)) - player_y g)\<^sup>2) \<longrightarrow>
      (\<exists>g'' e. create_enemy g rs = Inr (g'', post) \<and>
         enemies g'' = enemies g @ [e] \<and>
         e = set_y (real (r2 mod (winfo_height g + 1)))
               (set_x (real (r1 mod (winfo_width g + 1))) e0) \<and>
         get_x e = real (r1 mod (winfo_width g + 1)) \<and>
         get_y e = real (r2 mod (winfo_height g + 1))))"
proof (intro conjI impI)
  assume a: "generator_level (enemy_generator g) mod 4 \<noteq> 3 \<and> create_enemy g rs = Inr (g', rs')"
  then obtain e0 g1 rs1 x y where
    en: "enemies g' = enemies g @ [set_y y (set_x x e0)]" and
    sp: "spawn_loop (int (winfo_width g)) (int (winfo_height g)) (player_x g) (player_y g)
           (max (250 - generator_level (enemy_generator g) * 10) 100) rs1 = Inr ((x, y), rs')"
    using create_enemy_enemies [of g rs g' rs'] by auto
  from spawn_loop_far [OF sp]
  have "real_of_int (max (250 - generator_level (enemy_generator g) * 10) 100)
          \<le> sqrt ((x - player_x g)\<^sup>2 + (y - player_y g)\<^sup>2)" by simp
  then have "real_of_int (max (250 - 10 * generator_level (enemy_generator g)) 100)
          \<le> sqrt ((get_x (set_y y (set_x x e0)) - player_x g)\<^sup>2 +
                   (get_y (set_y y (set_x x e0)) - player_y g)\<^sup>2)"
    by (simp add: get_set_xy mult.commute)
  with en show "\<exists>e. enemies g' = enemies g @ [e] \<and>
           real_of_int (max (250 - 10 * generator_level (enemy_generator g)) 100)
             \<le> sqrt ((get_x e - player_x g)\<^sup>2 + (get_y e - player_y g)\<^sup>2)"
    by blast
next
  assume a: "generator_level (enemy_generator g) mod 4 = 3 \<and> create_enemy g rs = Inr (g', rs')"
  then obtain e0 x y where
    en: "enemies g' = enemies g @ [set_y y (set_x x e0)]" and
    xy: "x = pos_x (home g) + 50" "y = pos_y (home g) + 50"
    using create_enemy_enemies [of g rs g' rs'] by auto
  have "get_x (set_y y (set_x x e0)) = pos_x (home g) + 50"
       "get_y (set_y y (set_x x e0)) = pos_y (home g) + 50"
    by (simp_all add: get_set_xy xy)
  with en show "\<exists>e. enemies g' = enemies g @ [e] \<and>
           get_x e = pos_x (home g) + 50 \<and> get_y e = pos_y (home g) + 50"
    by blast
next
  assume a: "generator_level (enemy_generator g) mod 4 \<noteq> 3 \<and>
    new_enemy_of_level g rs = Inr (e0, g1, pre @ r1 # r2 # post) \<and> even (length pre) \<and>
    real_of_int (max (250 - 10 * generator_level (enemy_generator g)) 100)
      \<le> sqrt ((real (r1 mod (winfo_width g + 1)) - player_x g)\<^sup>2 +
               (real (r2 mod (winfo_height g + 1)) - player_y g)\<^sup>2)"
  have n1: "nat (int (winfo_width g) + 1) = winfo_width g + 1"
    and n2: "nat (int (winfo_height g) + 1) = winfo_height g + 1" by simp_all
  from a have
    "real_of_int (max (250 - generator_level (enemy_generator g) * 10) 100)
      \<le> sqrt ((real_of_int (int (r1 mod nat (int (winfo_width g) + 1))) - player_x g)\<^sup>2 +
               (real_of_int (int (r2 mod nat (int (winfo_height g) + 1))) - player_y g)\<^sup>2)"
    by (simp only: n1 n2 mult.commute of_int_of_nat_eq)
  from spawn_loop_finds [OF _ _ _ this, of pre post] a
  obtain p rs'' where
    "spawn_loop (int (winfo_width g)) (int (winfo_height g)) (player_x g) (player_y g)
       (max (250 - generator_level (enemy_generator g) * 10) 100) (pre @ r1 # r2 # post)
     = Inr (p, rs'')"
    by auto
  with a show "\<exists>g'' rs''. create_enemy g rs = Inr (g'', rs'')"
    by (cases p) (simp add: create_enemy_def and_then_def Let_def)
next
  assume a: "generator_level (enemy_generator g) mod 4 \<noteq> 3 \<and>
    new_enemy_of_level g rs = Inr (e0, g1, pre @ r1 # r2 # post) \<and> even (length pre) \<and>
    (\<forall>k. 2 * k + 1 < length pre \<longrightarrow>
       sqrt ((real (pre ! (2 * k) mod (winfo_width g + 1)) - player_x g)\<^sup>2 +
             (real (pre ! (2 * k + 1) mod (winfo_height g + 1)) - player_y g)\<^sup>2)
         < real_of_int (max (250 - 10 * generator_level (enemy_generator g)) 100)) \<and>
    real_of_int (max (250 - 10 * generator_level (enemy_generator g)) 100)
      \<le> sqrt ((real (r1 mod (winfo_width g + 1)) - player_x g)\<^sup>2 +
               (real (r2 mod (winfo_height g + 1)) - player_y g)\<^sup>2)"
  then have "\<exists>g''. create_enemy g rs = Inr (g'', post) \<and>
           enemies g'' = enemies g @
             [set_y (real (r2 mod (winfo_height g + 1)))
                (set_x (real (r1 mod (winfo_width g + 1))) e0)]"
    using create_enemy_first_far [of g rs e0 g1 pre r1 r2 post] by blast
  then show "\<exists>g'' e. create_enemy g rs = Inr (g'', post) \<and>
         enemies g'' = enemies g @ [e] \<and>
         e = set_y (real (r2 mod (winfo_height g + 1)))
               (set_x (real (r1 mod (winfo_width g + 1))) e0) \<and>
         get_x e = real (r1 mod (winfo_width g + 1)) \<and>
         get_y e = real (r2 mod (winfo_height g + 1))"
    by (auto simp add: get_set_xy)
qed

text \<open>
  At level 3, with the home at (700, 250) and the player at (650, 300), the fencing
  enemy is put at (750, 300): 100 from the player, where \<open>min_distance\<close> is 220.
\<close>

theorem create_enemy_fencing_counterexample:
  "(case create_enemy (player_at 650 300 (game_of_level 3)) [] of
      Inl err \<Rightarrow> False
    | Inr (g', rs') \<Rightarrow>
        sqrt ((get_x (last (enemies g')) - 650)\<^sup>2 + (get_y (last (enemies g')) - 300)\<^sup>2)
          < real_of_int (max (250 - 10 * 3) 100))"
  by (simp add: create_enemy_eval fencing_eval)

text \<open>
  At level 2 the draws 60, 250 give a point 10 from the player, which is refused; the
  draws 700, 30 give the spawn point, and the draws 5, 6 are left.
\<close>

theorem create_enemy_spawn_distance_witness:
  "(case create_enemy (game_of_level 2) [60, 250, 700, 30, 5, 6] of
      Inl err \<Rightarrow> False
    | Inr (g', rs') \<Rightarrow>
        rs' = [5, 6] \<and>
        (\<exists>e. enemies g' = [e] \<and> get_x e = 700 \<and> get_y e = 30 \<and>
             230 \<le> sqrt ((get_x e - 50)\<^sup>2 + (get_y e - 250)\<^sup>2))) \<and>
   (case create_enemy (game_of_level 3) [] of
      Inl err \<Rightarrow> False
    | Inr (g', rs') \<Rightarrow> (\<exists>e. enemies g' = [e] \<and> get_x e = 750 \<and> get_y e = 300)) \<and>
   (\<exists>g'' rs''. create_enemy (game_of_level 2) [60, 250, 700, 30, 5, 6] = Inr (g'', rs''))"
proof -
  have vals: "generator_level (enemy_generator (game_of_level 2)) = 2"
    "winfo_width (game_of_level 2) = 800" "winfo_height (game_of_level 2) = 500"
    "player_x (game_of_level 2) = 50" "player_y (game_of_level 2) = 250"
    "enemies (game_of_level 2) = []"
    by (simp_all add: game_of_level_def example_game_def player_x_def player_y_def)
  have l2: "generator_level (enemy_generator (game_of_level 2)) mod 4 \<noteq> 3"
    by (simp add: vals)
  have l3: "generator_level (enemy_generator (game_of_level 3)) mod 4 = 3"
    by (simp add: game_of_level_def)
  have ne: "new_enemy_of_level (game_of_level 2) [60, 250, 700, 30, 5, 6] =
              Inr (Chasing (ChasingEnemy_init 20 ''red''), game_of_level 2,
                   [60, 250] @ 700 # 30 # [5, 6])"
    by (simp add: new_enemy_of_level_def game_of_level_def)
  have ev: "even (length [60::nat, 250])" by simp
  have rej: "\<forall>k. 2 * k + 1 < length [60::nat, 250] \<longrightarrow>
       sqrt ((real ([60, 250] ! (2 * k) mod (winfo_width (game_of_level 2) + 1))
                - player_x (game_of_level 2))\<^sup>2 +
             (real ([60, 250] ! (2 * k + 1) mod (winfo_height (game_of_level 2) + 1))
                - player_y (game_of_level 2))\<^sup>2)
         < real_of_int (max (250 - 10 * generator_level (enemy_generator (game_of_level 2))) 100)"
  proof (intro allI impI)
    fix k :: nat
    assume "2 * k + 1 < length [60::nat, 250]"
    then have k: "k = 0" by simp
    show "sqrt ((real ([60, 250] ! (2 * k) mod (winfo_width (game_of_level 2) + 1))
                - player_x (game_of_level 2))\<^sup>2 +
             (real ([60, 250] ! (2 * k + 1) mod (winfo_height (game_of_level 2) + 1))
                - player_y (game_of_level 2))\<^sup>2)
         < real_of_int (max (250 - 10 * generator_level (enemy_generator (game_of_level 2))) 100)"
      by (simp add: k vals sqrt_less_iff)
  qed
  have far: "real_of_int (max (250 - 10 * generator_level (enemy_generator (game_of_level 2))) 100)
      \<le> sqrt ((real (700 mod (winfo_width (game_of_level 2) + 1)) - player_x (game_of_level 2))\<^sup>2 +
               (real (30 mod (winfo_height (game_of_level 2) + 1)) - player_y (game_of_level 2))\<^sup>2)"
    by (simp add: vals le_sqrt_iff)
  note t = create_enemy_spawn_distance
    [of "game_of_level 2" "[60, 250, 700, 30, 5, 6]" _ _ "Chasing (ChasingEnemy_init 20 ''red'')"
        "game_of_level 2" "[60, 250]" 700 30 "[5, 6]"]
  from t l2 ne ev far
  have ret: "\<exists>g'' rs''. create_enemy (game_of_level 2) [60, 250, 700, 30, 5, 6] = Inr (g'', rs'')"
    by blast
  from t l2 ne ev rej far
  have "\<exists>g'' e. create_enemy (game_of_level 2) [60, 250, 700, 30, 5, 6] = Inr (g'', [5, 6]) \<and>
         enemies g'' = enemies (game_of_level 2) @ [e] \<and>
         e = set_y (real (30 mod (winfo_height (game_of_level 2) + 1)))
               (set_x (real (700 mod (winfo_width (game_of_level 2) + 1)))
                  (Chasing (ChasingEnemy_init 20 ''red''))) \<and>
         get_x e = real (700 mod (winfo_width (game_of_level 2) + 1)) \<and>
         get_y e = real (30 mod (winfo_height (game_of_level 2) + 1))"
    by blast
  then obtain g2 e2 where
    c2: "create_enemy (game_of_level 2) [60, 250, 700, 30, 5, 6] = Inr (g2, [5, 6])" and
    e2: "enemies g2 = [e2]" "get_x e2 = 700" "get_y e2 = 30"
    by (auto simp add: vals)
  from create_enemy_spawn_distance
    [of "game_of_level 2" "[60, 250, 700, 30, 5, 6]" g2 "[5, 6]"] l2 c2
  have "\<exists>e. enemies g2 = enemies (game_of_level 2) @ [e] \<and>
           real_of_int (max (250 - 10 * generator_level (enemy_generator (game_of_level 2))) 100)
             \<le> sqrt ((get_x e - player_x (game_of_level 2))\<^sup>2 +
                      (get_y e - player_y (game_of_level 2))\<^sup>2)"
    by blast
  with e2 have p2: "230 \<le> sqrt ((get_x e2 - 50)\<^sup>2 + (get_y e2 - 250)\<^sup>2)"
    by (auto simp add: vals)
  have "\<exists>g3 rs3. create_enemy (game_of_level 3) [] = Inr (g3, rs3)"
    by (simp add: create_enemy_eval fencing_eval)
  then obtain g3 rs3 where c3: "create_enemy (game_of_level 3) [] = Inr (g3, rs3)"
    by blast
  from create_enemy_spawn_distance [of "game_of_level 3" "[]" g3 rs3] l3 c3
  have p3: "\<exists>e. enemies g3 = [e] \<and> get_x e = 750 \<and> get_y e = 300"
    by (simp add: game_of_level_def example_game_def)
  from e2 p2 have "\<exists>e. enemies g2 = [e] \<and> get_x e = 700 \<and> get_y e = 30 \<and>
             230 \<le> sqrt ((get_x e - 50)\<^sup>2 + (get_y e - 250)\<^sup>2)"
    by simp
  with ret p3 c2 c3 show ?thesis by simp
qed

section \<open>The generator's timer\<close>

lemma create_enemy_scheduled:
  assumes "create_enemy g rs = Inr (g', rs')"
  shows "scheduled g' = scheduled g @
           [(max 200 (1000 - 10 * generator_level (enemy_generator g)), Create_enemy)]"
  using create_enemy_enemies [OF assms] by (auto simp: mult.commute)

text \<open>
  C8. \<^verbatim>\<open>create_enemy\<close> schedules itself again after \<open>max(200, 1000 - 10 * level)\<close>
  milliseconds: the delay is never below 200, and a generator of a higher level never
  waits longer than one of a lower level.
\<close>

theorem create_enemy_reschedule_delay:
  "(create_enemy g rs = Inr (g', rs') \<longrightarrow>
      scheduled g' = scheduled g @
        [(max 200 (1000 - 10 * generator_level (enemy_generator g)), Create_enemy)] \<and>
      200 \<le> fst (last (scheduled g'))) \<and>
   (create_enemy g rs = Inr (g', rs') \<and> create_enemy h qs = Inr (h', qs') \<and>
    generator_level (enemy_generator g) \<le> generator_level (enemy_generator h) \<longrightarrow>
      fst (last (scheduled h')) \<le> fst (last (scheduled g')))"
proof (intro conjI impI)
  assume "create_enemy g rs = Inr (g', rs')"
  then show "scheduled g' = scheduled g @
        [(max 200 (1000 - 10 * generator_level (enemy_generator g)), Create_enemy)]"
    by (rule create_enemy_scheduled)
next
  assume "create_enemy g rs = Inr (g', rs')"
  then show "200 \<le> fst (last (scheduled g'))"
    by (simp add: create_enemy_scheduled)
next
  assume "create_enemy g rs = Inr (g', rs') \<and> create_enemy h qs = Inr (h', qs') \<and>
    generator_level (enemy_generator g) \<le> generator_level (enemy_generator h)"
  then show "fst (last (scheduled h')) \<le> fst (last (scheduled g'))"
    by (auto simp add: create_enemy_scheduled)
qed

theorem create_enemy_reschedule_delay_witness:
  "(case create_enemy (game_of_level 2) [700, 30] of
      Inl err \<Rightarrow> False
    | Inr (g', rs') \<Rightarrow> scheduled g' = [(980, Create_enemy)]) \<and>
   (case create_enemy (game_of_level 90) [700, 30] of
      Inl err \<Rightarrow> False
    | Inr (h', qs') \<Rightarrow> scheduled h' = [(200, Create_enemy)]) \<and>
   (200::int) \<le> 980"
proof -
  have "\<exists>g' rs'. create_enemy (game_of_level 2) [700, 30] = Inr (g', rs')"
    by (simp add: create_enemy_eval)
  then obtain g' rs' where g: "create_enemy (game_of_level 2) [700, 30] = Inr (g', rs')"
    by blast
  have "\<exists>h' qs'. create_enemy (game_of_level 90) [700, 30] = Inr (h', qs')"
    by (simp add: create_enemy_eval)
  then obtain h' qs' where h: "create_enemy (game_of_level 90) [700, 30] = Inr (h', qs')"
    by blast
  have le: "generator_level (enemy_generator (game_of_level 2))
              \<le> generator_level (enemy_generator (game_of_level 90))"
    by (simp add: game_of_level_def)
  note d = create_enemy_reschedule_delay
    [of "game_of_level 2" "[700, 30]" g' rs' "game_of_level 90" "[700, 30]" h' qs']
  from d g have "scheduled g' = scheduled (game_of_level 2) @
      [(max 200 (1000 - 10 * generator_level (enemy_generator (game_of_level 2))), Create_enemy)]"
    by blast
  then have sg: "scheduled g' = [(980, Create_enemy)]"
    by (simp add: game_of_level_def example_game_def)
  from d g h le have mono: "fst (last (scheduled h')) \<le> fst (last (scheduled g'))"
    by blast
  from create_enemy_reschedule_delay [of "game_of_level 90" "[700, 30]" h' qs'] h
  have "scheduled h' = scheduled (game_of_level 90) @
      [(max 200 (1000 - 10 * generator_level (enemy_generator (game_of_level 90))), Create_enemy)]"
    by blast
  then have sh: "scheduled h' = [(200, Create_enemy)]"
    by (simp add: game_of_level_def example_game_def)
  from mono sg sh have "(200::int) \<le> 980" by simp
  with sg sh show ?thesis using g h by simp
qed

section \<open>The boss\<close>

lemma new_enemy_of_level_boss:
  assumes "generator_level (enemy_generator g) mod 4 = 0"
    and "new_enemy_of_level g rs = Inr (e0, g1, rs1)"
  shows "\<exists>b hs. e0 = Boss b \<and> g1 = g\<lparr>elements := elements g @ map HomeElement hs\<rparr> \<and>
               length hs = 5 \<and> num_fake_homes b = 5 \<and> (\<forall>h \<in> set hs. home_size h = 20)"
proof -
  from assms obtain b rs2 where
    b: "e0 = Boss b" "num_fake_homes b = 5" and
    gen: "generate_fake_homes b g rs2 = Inr (g1, rs1)"
    by (auto simp: new_enemy_of_level_def and_then_def Let_def BossEnemy_init_def
          Enemy.extend_def split: sum.splits prod.splits)
  from generate_fake_homes_elements [OF gen] b show ?thesis by auto
qed

lemma set_xy_Boss: "set_y y (set_x x (Boss b)) = Boss (b\<lparr>pos_x := x, pos_y := y\<rparr>)"
  by (simp add: set_x_def set_y_def)

text \<open>
  C7 (as the code has it). Every update of a boss adds its growth rate, 0.7 from the
  constructor on, to its size and 0.001 to its speed. The constructor leaves the game
  as it is; the decoys are added by \<^verbatim>\<open>create_enemy\<close>, which calls
  \<^verbatim>\<open>generate_fake_homes\<close> on the boss it has made: when \<^verbatim>\<open>create_enemy\<close> returns at a
  level that is a multiple of 4, five homes of size 20 have been added to the elements of
  the game, before the boss itself.
\<close>

theorem boss_growth_and_decoys:
  "boss_size (fst (BossEnemy_update g b)) = boss_size b + growth_rate b \<and>
   boss_speed (fst (BossEnemy_update g b)) = boss_speed b + 1 / 1000 \<and>
   growth_rate (fst (BossEnemy_update g b)) = growth_rate b \<and>
   growth_rate (fst (BossEnemy_init g sz col)) = 7 / 10 \<and>
   num_fake_homes (fst (BossEnemy_init g sz col)) = 5 \<and>
   snd (BossEnemy_init g sz col) = g \<and>
   (generator_level (enemy_generator g) mod 4 = 0 \<and> create_enemy g rs = Inr (g', rs') \<longrightarrow>
      (\<exists>hs b'. length hs = 5 \<and> (\<forall>h \<in> set hs. home_size h = 20) \<and>
          elements g' = elements g @ map HomeElement hs @ [EnemyElement (length (enemies g))] \<and>
          enemies g' = enemies g @ [Boss b']))"
proof (intro conjI impI)
  assume a: "generator_level (enemy_generator g) mod 4 = 0 \<and> create_enemy g rs = Inr (g', rs')"
  then obtain e0 g1 rs1 x y where
    ne: "new_enemy_of_level g rs = Inr (e0, g1, rs1)" and
    en: "enemies g' = enemies g @ [set_y y (set_x x e0)]" and
    el: "elements g' = elements g1 @ [EnemyElement (length (enemies g))]"
    using create_enemy_enemies [of g rs g' rs'] by blast
  from new_enemy_of_level_boss [OF _ ne] a obtain b0 hs where
    b0: "e0 = Boss b0" "g1 = g\<lparr>elements := elements g @ map HomeElement hs\<rparr>"
        "length hs = 5" "\<forall>h \<in> set hs. home_size h = 20"
    by blast
  have "elements g' = elements g @ map HomeElement hs @ [EnemyElement (length (enemies g))]"
    using el b0(2) by simp
  moreover have "enemies g' = enemies g @ [Boss (b0\<lparr>pos_x := x, pos_y := y\<rparr>)]"
    using en b0(1) by (simp add: set_xy_Boss)
  ultimately show "\<exists>hs b'. length hs = 5 \<and> (\<forall>h \<in> set hs. home_size h = 20) \<and>
          elements g' = elements g @ map HomeElement hs @ [EnemyElement (length (enemies g))] \<and>
          enemies g' = enemies g @ [Boss b']"
    using b0(3,4) by blast
qed (simp_all add: BossEnemy_update_def BossEnemy_init_def Let_def Enemy.extend_def)

text \<open>
  The constructor alone, on the example game: the elements are the three the game
  had, although the boss has \<open>num_fake_homes = 5\<close>.
\<close>

theorem BossEnemy_init_counterexample:
  "elements (snd (BossEnemy_init example_game 20 ''black'')) =
     [WaypointElement, GameHomeElement, PlayerElement] \<and>
   num_fake_homes (fst (BossEnemy_init example_game 20 ''black'')) = 5"
  by (simp add: BossEnemy_init_def example_game_def Enemy.extend_def)

theorem boss_growth_and_decoys_witness:
  "generator_level (enemy_generator (game_of_level 4)) mod 4 = 0 \<and>
   (case create_enemy (game_of_level 4) [1, 2, 3, 4, 5, 6, 7, 8, 9, 10, 11, 12, 700, 30] of
      Inl err \<Rightarrow> False
    | Inr (g', rs') \<Rightarrow>
        (\<exists>hs b'. length hs = 5 \<and>
           elements g' = [WaypointElement, GameHomeElement, PlayerElement]
                           @ map HomeElement hs @ [EnemyElement 0] \<and>
           enemies g' = [Boss b']))"
proof -
  have l: "generator_level (enemy_generator (game_of_level 4)) mod 4 = 0"
    by (simp add: game_of_level_def)
  have "\<exists>g' rs'. create_enemy (game_of_level 4)
          [1, 2, 3, 4, 5, 6, 7, 8, 9, 10, 11, 12, 700, 30] = Inr (g', rs')"
    by (simp add: create_enemy_eval boss_eval)
  then obtain g' rs' where c: "create_enemy (game_of_level 4)
          [1, 2, 3, 4, 5, 6, 7, 8, 9, 10, 11, 12, 700, 30] = Inr (g', rs')"
    by blast
  from boss_growth_and_decoys
    [of "game_of_level 4" "fst (BossEnemy_init (game_of_level 4) 20 ''black'')" 20 "''black''"
        "[1, 2, 3, 4, 5, 6, 7, 8, 9, 10, 11, 12, 700, 30]" g' rs'] l c
  have "\<exists>hs b'. length hs = 5 \<and> (\<forall>h \<in> set hs. home_size h = 20) \<and>
          elements g' = elements (game_of_level 4) @ map HomeElement hs @
                          [EnemyElement (length (enemies (game_of_level 4)))] \<and>
          enemies g' = enemies (game_of_level 4) @ [Boss b']"
    by blast
  then have "\<exists>hs b'. length hs = 5 \<and>
           elements g' = [WaypointElement, GameHomeElement, PlayerElement]
                           @ map HomeElement hs @ [EnemyElement 0] \<and>
           enemies g' = [Boss b']"
    by (auto simp add: game_of_level_def example_game_def)
  with l c show ?thesis by simp
qed

section \<open>Bearings\<close>

text \<open>
  The cosine and sine of \<open>atan2 y x\<close> are those of the direction of \<open>(x, y)\<close>, and a
  step of length \<open>s\<close> along any angle has length \<open>\<bar>s\<bar>\<close>.
\<close>

lemma sqrt_quotient_one_plus:
  assumes "x \<noteq> 0"
  shows "sqrt (1 + (y / x)\<^sup>2) = sqrt (x\<^sup>2 + y\<^sup>2) / \<bar>x\<bar>"
proof -
  have "1 + (y / x)\<^sup>2 = (x\<^sup>2 + y\<^sup>2) / x\<^sup>2"
    using assms by (simp add: power_divide add_divide_distrib)
  then show ?thesis by (simp add: real_sqrt_divide)
qed

lemma cos_arctan_ratio:
  "x \<noteq> 0 \<Longrightarrow> cos (arctan (y / x)) = \<bar>x\<bar> / sqrt (x\<^sup>2 + y\<^sup>2)"
  by (simp add: cos_arctan sqrt_quotient_one_plus)

lemma sin_arctan_ratio:
  "x \<noteq> 0 \<Longrightarrow> sin (arctan (y / x)) = (y / x) * \<bar>x\<bar> / sqrt (x\<^sup>2 + y\<^sup>2)"
  by (simp add: sin_arctan sqrt_quotient_one_plus)

lemma cos_atan2:
  assumes "x \<noteq> 0 \<or> y \<noteq> 0"
  shows "cos (atan2 y x) = x / sqrt (x\<^sup>2 + y\<^sup>2)"
proof -
  consider (pos) "0 < x" | (neg) "x < 0" | (zero) "x = 0" "y \<noteq> 0" using assms by fastforce
  then show ?thesis
  proof cases
    case pos
    then show ?thesis by (simp add: atan2_def cos_arctan_ratio)
  next
    case neg
    then show ?thesis by (simp add: atan2_def cos_arctan_ratio)
  next
    case zero
    then show ?thesis by (simp add: atan2_def)
  qed
qed

lemma sin_atan2:
  assumes "x \<noteq> 0 \<or> y \<noteq> 0"
  shows "sin (atan2 y x) = y / sqrt (x\<^sup>2 + y\<^sup>2)"
proof -
  consider (pos) "0 < x" | (neg) "x < 0" | (zero) "x = 0" "y \<noteq> 0" using assms by fastforce
  then show ?thesis
  proof cases
    case pos
    then show ?thesis by (simp add: atan2_def sin_arctan_ratio)
  next
    case neg
    then show ?thesis by (simp add: atan2_def sin_arctan_ratio)
  next
    case zero
    then show ?thesis by (auto simp add: atan2_def abs_if)
  qed
qed

lemma step_length: "sqrt ((s * cos a)\<^sup>2 + (s * sin a)\<^sup>2) = \<bar>s\<bar>"
proof -
  have "(s * cos a)\<^sup>2 + (s * sin a)\<^sup>2 = s\<^sup>2 * ((cos a)\<^sup>2 + (sin a)\<^sup>2)"
    by algebra
  also have "\<dots> = s\<^sup>2" by simp
  finally show ?thesis by simp
qed

section \<open>The player's move to the waypoint\<close>

lemma Player_update_active_player:
  assumes "is_active (waypoint g)"
  shows "turtle (player (Player_update g)) =
           forward (player_speed (player g))
             (setheading (towards (turtle (player g)) (pos_x (waypoint g)) (pos_y (waypoint g)))
                (turtle (player g)))"
    and "player_speed (player (Player_update g)) = player_speed (player g)"
    and "waypoint (Player_update g) =
           (if distance (turtle (player (Player_update g)))
                 (pos_x (waypoint g)) (pos_y (waypoint g)) < player_speed (player g)
            then deactivate (waypoint g) else waypoint g)"
  using assms
  by (simp_all add: Player_update_def Let_def game_over_win_def stop_def)

lemma Player_update_step:
  assumes "is_active (waypoint g)"
  shows "player_x (Player_update g) - player_x g =
           player_speed (player g) *
             cos (atan2 (pos_y (waypoint g) - player_y g) (pos_x (waypoint g) - player_x g))"
    and "player_y (Player_update g) - player_y g =
           player_speed (player g) *
             sin (atan2 (pos_y (waypoint g) - player_y g) (pos_x (waypoint g) - player_x g))"
  by (simp_all add: Player_update_active_player [OF assms] player_x_def player_y_def
        forward_def setheading_def towards_def)

text \<open>
  C3 (as the code has it). On a tick with an active waypoint, \<^verbatim>\<open>Player.update\<close> moves the player
  by exactly its speed, along the line to the waypoint when the player is not on it;
  it deactivates the waypoint exactly when the distance left after the move is less
  than the speed, and leaves the waypoint where it is; it calls \<^verbatim>\<open>game_over_win\<close>
  exactly when the home contains the position the player had before the move.
\<close>

theorem Player_update_active:
  assumes "is_active (waypoint g)" and "0 \<le> player_speed (player g)"
  shows "sqrt ((player_x (Player_update g) - player_x g)\<^sup>2 +
               (player_y (Player_update g) - player_y g)\<^sup>2) = player_speed (player g) \<and>
         ((player_x g, player_y g) \<noteq> (pos_x (waypoint g), pos_y (waypoint g)) \<longrightarrow>
            player_x (Player_update g) - player_x g =
              player_speed (player g) * (pos_x (waypoint g) - player_x g) /
                sqrt ((pos_x (waypoint g) - player_x g)\<^sup>2 + (pos_y (waypoint g) - player_y g)\<^sup>2) \<and>
            player_y (Player_update g) - player_y g =
              player_speed (player g) * (pos_y (waypoint g) - player_y g) /
                sqrt ((pos_x (waypoint g) - player_x g)\<^sup>2 + (pos_y (waypoint g) - player_y g)\<^sup>2)) \<and>
         (is_active (waypoint (Player_update g)) \<longleftrightarrow>
            \<not> sqrt ((pos_x (waypoint g) - player_x (Player_update g))\<^sup>2 +
                     (pos_y (waypoint g) - player_y (Player_update g))\<^sup>2)
                < player_speed (player g)) \<and>
         pos_x (waypoint (Player_update g)) = pos_x (waypoint g) \<and>
         pos_y (waypoint (Player_update g)) = pos_y (waypoint g) \<and>
         (triggers_win g (Player_update g) \<longleftrightarrow>
            Home_contains (home g) (player_x g) (player_y g))"
proof (intro conjI impI)
  show "sqrt ((player_x (Player_update g) - player_x g)\<^sup>2 +
               (player_y (Player_update g) - player_y g)\<^sup>2) = player_speed (player g)"
    using assms(2) by (simp only: Player_update_step [OF assms(1)] step_length abs_of_nonneg)
next
  assume ne: "(player_x g, player_y g) \<noteq> (pos_x (waypoint g), pos_y (waypoint g))"
  then have nz: "pos_x (waypoint g) - player_x g \<noteq> 0 \<or> pos_y (waypoint g) - player_y g \<noteq> 0"
    by auto
  show "player_x (Player_update g) - player_x g =
              player_speed (player g) * (pos_x (waypoint g) - player_x g) /
                sqrt ((pos_x (waypoint g) - player_x g)\<^sup>2 + (pos_y (waypoint g) - player_y g)\<^sup>2)"
    by (simp add: Player_update_step [OF assms(1)] cos_atan2 [OF nz])
  show "player_y (Player_update g) - player_y g =
              player_speed (player g) * (pos_y (waypoint g) - player_y g) /
                sqrt ((pos_x (waypoint g) - player_x g)\<^sup>2 + (pos_y (waypoint g) - player_y g)\<^sup>2)"
    by (simp add: Player_update_step [OF assms(1)] sin_atan2 [OF nz])
next
  show "is_active (waypoint (Player_update g)) \<longleftrightarrow>
            \<not> sqrt ((pos_x (waypoint g) - player_x (Player_update g))\<^sup>2 +
                     (pos_y (waypoint g) - player_y (Player_update g))\<^sup>2)
                < player_speed (player g)"
    using assms(1)
    by (simp add: Player_update_active_player(3) [OF assms(1)] distance_def deactivate_def
          player_x_def player_y_def)
  show "pos_x (waypoint (Player_update g)) = pos_x (waypoint g)"
    by (simp add: Player_update_active_player(3) [OF assms(1)] deactivate_def)
  show "pos_y (waypoint (Player_update g)) = pos_y (waypoint g)"
    by (simp add: Player_update_active_player(3) [OF assms(1)] deactivate_def)
  show "triggers_win g (Player_update g) \<longleftrightarrow>
            Home_contains (home g) (player_x g) (player_y g)"
    by (rule Player_update_triggers_win)
qed



lemmas Player_update_eval =
  Player_update_def Let_def Home_contains_def player_x_def player_y_def towards_def atan2_def
  setheading_def forward_def distance_def deactivate_def sqrt_less_iff
  waypoint_game_def example_game_def

text \<open>
  With the player at (50, 250), the speed 5 and the waypoint at (57, 250), one update
  takes the player to (55, 250) and deactivates the waypoint, which the player has not
  reached.
\<close>

theorem Player_update_arrival_counterexample:
  "is_active (waypoint waypoint_game) \<and>
   \<not> is_active (waypoint (Player_update waypoint_game)) \<and>
   player_x (Player_update waypoint_game) = 55 \<and>
   player_y (Player_update waypoint_game) = 250 \<and>
   pos_x (waypoint (Player_update waypoint_game)) = 57 \<and>
   pos_y (waypoint (Player_update waypoint_game)) = 250"
  by (simp add: Player_update_eval)

theorem Player_update_active_witness:
  "is_active (waypoint waypoint_game) \<and> 0 \<le> player_speed (player waypoint_game) \<and>
   (player_x waypoint_game, player_y waypoint_game)
     \<noteq> (pos_x (waypoint waypoint_game), pos_y (waypoint waypoint_game)) \<and>
   sqrt ((player_x (Player_update waypoint_game) - 50)\<^sup>2 +
         (player_y (Player_update waypoint_game) - 250)\<^sup>2) = 5 \<and>
   player_x (Player_update waypoint_game) - 50 = 5 \<and>
   player_y (Player_update waypoint_game) - 250 = 0 \<and>
   \<not> is_active (waypoint (Player_update waypoint_game)) \<and>
   \<not> triggers_win waypoint_game (Player_update waypoint_game)"
proof -
  have a: "is_active (waypoint waypoint_game)"
    by (simp add: waypoint_game_def)
  have b: "0 \<le> player_speed (player waypoint_game)"
    by (simp add: waypoint_game_def example_game_def)
  have c: "(player_x waypoint_game, player_y waypoint_game)
     \<noteq> (pos_x (waypoint waypoint_game), pos_y (waypoint waypoint_game))"
    by (simp add: waypoint_game_def example_game_def player_x_def)
  have vals: "player_x waypoint_game = 50" "player_y waypoint_game = 250"
    "pos_x (waypoint waypoint_game) = 57" "pos_y (waypoint waypoint_game) = 250"
    "player_speed (player waypoint_game) = 5"
    "home waypoint_game = \<lparr>pos_x = 700, pos_y = 250, home_size = 20\<rparr>"
    by (simp_all add: waypoint_game_def example_game_def player_x_def player_y_def)
  note t = Player_update_active [OF a b]
  from t have len: "sqrt ((player_x (Player_update waypoint_game) - 50)\<^sup>2 +
         (player_y (Player_update waypoint_game) - 250)\<^sup>2) = 5"
    by (simp add: vals)
  from t c have dx: "player_x (Player_update waypoint_game) - 50 = 5"
    and dy: "player_y (Player_update waypoint_game) - 250 = 0"
    by (simp_all add: vals)
  from t have nowin: "\<not> triggers_win waypoint_game (Player_update waypoint_game)"
    by (simp add: vals Home_contains_def)
  from t have "is_active (waypoint (Player_update waypoint_game)) \<longleftrightarrow>
            \<not> sqrt ((57 - player_x (Player_update waypoint_game))\<^sup>2 +
                     (250 - player_y (Player_update waypoint_game))\<^sup>2) < 5"
    by (simp add: vals)
  moreover from dx dy have "player_x (Player_update waypoint_game) = 55"
    "player_y (Player_update waypoint_game) = 250"
    by simp_all
  ultimately have off: "\<not> is_active (waypoint (Player_update waypoint_game))"
    by (simp add: sqrt_less_iff)
  from len dx dy nowin off show ?thesis using a b c by simp
qed


section \<open>Chasing enemies\<close>

lemma ChasingEnemy_update_step:
  "pos_x (fst (ChasingEnemy_update g e)) - pos_x e =
     chasing_speed e * cos (atan2 (player_y g - pos_y e) (player_x g - pos_x e))"
  "pos_y (fst (ChasingEnemy_update g e)) - pos_y e =
     chasing_speed e * sin (atan2 (player_y g - pos_y e) (player_x g - pos_x e))"
  by (simp_all add: ChasingEnemy_update_def Let_def)

lemma BossEnemy_update_step:
  "pos_x (fst (BossEnemy_update g b)) - pos_x b =
     boss_speed b * cos (atan2 (player_y g - pos_y b) (player_x g - pos_x b))"
  "pos_y (fst (BossEnemy_update g b)) - pos_y b =
     boss_speed b * sin (atan2 (player_y g - pos_y b) (player_x g - pos_x b))"
  by (simp_all add: BossEnemy_update_def Let_def)

text \<open>
  C4. One update of a chasing enemy or of a boss moves it by the vector
  \<open>(speed * cos a, speed * sin a)\<close> with \<open>a = atan2(dy, dx)\<close> and \<open>(dx, dy)\<close> the
  vector from the enemy to the player: a step of length \<open>speed\<close> which, when the enemy
  is not on the player, is \<open>speed\<close> times the unit vector to the player. For the boss
  the speed is the one it had before the update.
\<close>

theorem chase_along_bearing:
  "pos_x (fst (ChasingEnemy_update g e)) - pos_x e =
     chasing_speed e * cos (atan2 (player_y g - pos_y e) (player_x g - pos_x e)) \<and>
   pos_y (fst (ChasingEnemy_update g e)) - pos_y e =
     chasing_speed e * sin (atan2 (player_y g - pos_y e) (player_x g - pos_x e)) \<and>
   sqrt ((pos_x (fst (ChasingEnemy_update g e)) - pos_x e)\<^sup>2 +
         (pos_y (fst (ChasingEnemy_update g e)) - pos_y e)\<^sup>2) = \<bar>chasing_speed e\<bar> \<and>
   pos_x (fst (BossEnemy_update g b)) - pos_x b =
     boss_speed b * cos (atan2 (player_y g - pos_y b) (player_x g - pos_x b)) \<and>
   pos_y (fst (BossEnemy_update g b)) - pos_y b =
     boss_speed b * sin (atan2 (player_y g - pos_y b) (player_x g - pos_x b)) \<and>
   sqrt ((pos_x (fst (BossEnemy_update g b)) - pos_x b)\<^sup>2 +
         (pos_y (fst (BossEnemy_update g b)) - pos_y b)\<^sup>2) = \<bar>boss_speed b\<bar> \<and>
   ((player_x g, player_y g) \<noteq> (pos_x e, pos_y e) \<longrightarrow>
      pos_x (fst (ChasingEnemy_update g e)) - pos_x e =
        chasing_speed e * (player_x g - pos_x e) /
          sqrt ((player_x g - pos_x e)\<^sup>2 + (player_y g - pos_y e)\<^sup>2) \<and>
      pos_y (fst (ChasingEnemy_update g e)) - pos_y e =
        chasing_speed e * (player_y g - pos_y e) /
          sqrt ((player_x g - pos_x e)\<^sup>2 + (player_y g - pos_y e)\<^sup>2)) \<and>
   ((player_x g, player_y g) \<noteq> (pos_x b, pos_y b) \<longrightarrow>
      pos_x (fst (BossEnemy_update g b)) - pos_x b =
        boss_speed b * (player_x g - pos_x b) /
          sqrt ((player_x g - pos_x b)\<^sup>2 + (player_y g - pos_y b)\<^sup>2) \<and>
      pos_y (fst (BossEnemy_update g b)) - pos_y b =
        boss_speed b * (player_y g - pos_y b) /
          sqrt ((player_x g - pos_x b)\<^sup>2 + (player_y g - pos_y b)\<^sup>2))"
proof (intro conjI impI)
  show "sqrt ((pos_x (fst (ChasingEnemy_update g e)) - pos_x e)\<^sup>2 +
         (pos_y (fst (ChasingEnemy_update g e)) - pos_y e)\<^sup>2) = \<bar>chasing_speed e\<bar>"
    by (simp only: ChasingEnemy_update_step step_length)
  show "sqrt ((pos_x (fst (BossEnemy_update g b)) - pos_x b)\<^sup>2 +
         (pos_y (fst (BossEnemy_update g b)) - pos_y b)\<^sup>2) = \<bar>boss_speed b\<bar>"
    by (simp only: BossEnemy_update_step step_length)
next
  assume "(player_x g, player_y g) \<noteq> (pos_x e, pos_y e)"
  then have nz: "player_x g - pos_x e \<noteq> 0 \<or> player_y g - pos_y e \<noteq> 0" by auto
  show "pos_x (fst (ChasingEnemy_update g e)) - pos_x e =
        chasing_speed e * (player_x g - pos_x e) /
          sqrt ((player_x g - pos_x e)\<^sup>2 + (player_y g - pos_y e)\<^sup>2)"
    by (simp add: ChasingEnemy_update_step cos_atan2 [OF nz])
  show "pos_y (fst (ChasingEnemy_update g e)) - pos_y e =
        chasing_speed e * (player_y g - pos_y e) /
          sqrt ((player_x g - pos_x e)\<^sup>2 + (player_y g - pos_y e)\<^sup>2)"
    by (simp add: ChasingEnemy_update_step sin_atan2 [OF nz])
next
  assume "(player_x g, player_y g) \<noteq> (pos_x b, pos_y b)"
  then have nz: "player_x g - pos_x b \<noteq> 0 \<or> player_y g - pos_y b \<noteq> 0" by auto
  show "pos_x (fst (BossEnemy_update g b)) - pos_x b =
        boss_speed b * (player_x g - pos_x b) /
          sqrt ((player_x g - pos_x b)\<^sup>2 + (player_y g - pos_y b)\<^sup>2)"
    by (simp add: BossEnemy_update_step cos_atan2 [OF nz])
  show "pos_y (fst (BossEnemy_update g b)) - pos_y b =
        boss_speed b * (player_y g - pos_y b) /
          sqrt ((player_x g - pos_x b)\<^sup>2 + (player_y g - pos_y b)\<^sup>2)"
    by (simp add: BossEnemy_update_step sin_atan2 [OF nz])
qed (rule ChasingEnemy_update_step BossEnemy_update_step)+

theorem chase_along_bearing_witness:
  "(player_x example_game, player_y example_game) \<noteq> (pos_x chaser_below, pos_y chaser_below) \<and>
   (player_x example_game, player_y example_game) \<noteq> (pos_x boss_left, pos_y boss_left) \<and>
   pos_x (fst (ChasingEnemy_update example_game chaser_below)) - 50 = 0 \<and>
   pos_y (fst (ChasingEnemy_update example_game chaser_below)) - 249 = 3 \<and>
   pos_x (fst (BossEnemy_update example_game boss_left)) - 49 = 3 \<and>
   pos_y (fst (BossEnemy_update example_game boss_left)) - 250 = 0"
proof -
  have vals: "player_x example_game = 50" "player_y example_game = 250"
    "pos_x chaser_below = 50" "pos_y chaser_below = 249" "chasing_speed chaser_below = 3"
    "pos_x boss_left = 49" "pos_y boss_left = 250" "boss_speed boss_left = 3"
    by (simp_all add: example_game_def player_x_def player_y_def chaser_below_def boss_left_def
          ChasingEnemy_init_def BossEnemy_init_def Enemy_init_def Enemy.extend_def)
  have c: "(player_x example_game, player_y example_game) \<noteq> (pos_x chaser_below, pos_y chaser_below)"
    and b: "(player_x example_game, player_y example_game) \<noteq> (pos_x boss_left, pos_y boss_left)"
    by (simp_all add: vals)
  note t = chase_along_bearing [of example_game chaser_below boss_left]
  from t c have "pos_x (fst (ChasingEnemy_update example_game chaser_below)) - 50 = 0"
    "pos_y (fst (ChasingEnemy_update example_game chaser_below)) - 249 = 3"
    by (simp_all add: vals)
  moreover from t b have "pos_x (fst (BossEnemy_update example_game boss_left)) - 49 = 3"
    "pos_y (fst (BossEnemy_update example_game boss_left)) - 250 = 0"
    by (simp_all add: vals)
  ultimately show ?thesis using c b by simp
qed

section \<open>Random-walk enemies\<close>

lemmas walk_eval =
  RandomWalkEnemy_update_def moving_up_def moving_down_def moving_right_def moving_left_def
  move_to_def Let_def

text \<open>
  C5 (as the code has it). A random-walk enemy does not wrap around: each update moves it by its
  speed along each axis, and when a coordinate has passed the edge of the canvas it is
  heading for (the right or lower edge at the canvas size, the left or upper edge at 0)
  the direction along that axis is reversed, the position staying where the step took it.
\<close>

theorem RandomWalkEnemy_turns_at_edge:
  assumes "state_x e \<in> {Moving_right, Moving_left}"
    and "state_y e \<in> {Moving_up, Moving_down}"
  shows "pos_x (fst (RandomWalkEnemy_update g e)) =
           (if state_x e = Moving_right then pos_x e + walk_speed e else pos_x e - walk_speed e) \<and>
         pos_y (fst (RandomWalkEnemy_update g e)) =
           (if state_y e = Moving_up then pos_y e + walk_speed e else pos_y e - walk_speed e) \<and>
         state_x (fst (RandomWalkEnemy_update g e)) =
           (if state_x e = Moving_right
            then (if pos_x e + walk_speed e > real (winfo_width g)
                  then Moving_left else Moving_right)
            else (if pos_x e - walk_speed e < 0 then Moving_right else Moving_left)) \<and>
         state_y (fst (RandomWalkEnemy_update g e)) =
           (if state_y e = Moving_up
            then (if pos_y e + walk_speed e > real (winfo_height g)
                  then Moving_down else Moving_up)
            else (if pos_y e - walk_speed e < 0 then Moving_up else Moving_down))"
  using assms by (auto simp add: walk_eval)

text \<open>
  On a canvas 800 wide an enemy at x = 799 walking right is at x = 802 after the
  update, beyond the right edge and not on the left side, and walks left from there.
\<close>

theorem RandomWalkEnemy_no_wrap_counterexample:
  "state_x walker_at_edge = Moving_right \<and>
   pos_x walker_at_edge \<le> real (winfo_width example_game) \<and>
   pos_x (fst (RandomWalkEnemy_update example_game walker_at_edge)) = 802 \<and>
   real (winfo_width example_game) < pos_x (fst (RandomWalkEnemy_update example_game walker_at_edge)) \<and>
   state_x (fst (RandomWalkEnemy_update example_game walker_at_edge)) = Moving_left"
  by (simp add: walk_eval walker_at_edge_def example_game_def Enemy_init_def Enemy.extend_def)

theorem RandomWalkEnemy_turns_at_edge_witness:
  "state_x walker_at_edge \<in> {Moving_right, Moving_left} \<and>
   state_y walker_at_edge \<in> {Moving_up, Moving_down} \<and>
   pos_x (fst (RandomWalkEnemy_update example_game walker_at_edge)) = 802 \<and>
   pos_y (fst (RandomWalkEnemy_update example_game walker_at_edge)) = 103 \<and>
   state_x (fst (RandomWalkEnemy_update example_game walker_at_edge)) = Moving_left \<and>
   state_y (fst (RandomWalkEnemy_update example_game walker_at_edge)) = Moving_up"
proof -
  have vals: "state_x walker_at_edge = Moving_right" "state_y walker_at_edge = Moving_up"
    "pos_x walker_at_edge = 799" "pos_y walker_at_edge = 100" "walk_speed walker_at_edge = 3"
    "winfo_width example_game = 800" "winfo_height example_game = 500"
    by (simp_all add: walker_at_edge_def example_game_def Enemy_init_def Enemy.extend_def)
  have a: "state_x walker_at_edge \<in> {Moving_right, Moving_left}"
    and b: "state_y walker_at_edge \<in> {Moving_up, Moving_down}"
    by (simp_all add: vals)
  from RandomWalkEnemy_turns_at_edge [OF a b, of example_game] a b
  show ?thesis by (simp add: vals)
qed

section \<open>Fencing enemies\<close>

lemma FencingEnemy_update_index:
  assumes "directions e = [''right'', ''down'', ''left'', ''up'']"
    and "current_direction_index e = i" and "i \<in> {0, 1, 2, 3}"
  shows "\<exists>e' g'. FencingEnemy_update g e = Inr (e', g') \<and>
           (current_direction_index e' = i \<or> current_direction_index e' = (i + 1) mod 4)"
  using assms
  by (auto simp add: FencingEnemy_update_def and_then_def py_index_def Let_def)

lemma FencingEnemy_update_inv:
  assumes "fencing_inv (home g) e"
  shows "\<exists>e' g'. FencingEnemy_update g e = Inr (e', g') \<and> fencing_inv (home g) e'"
proof -
  from assms consider
      (r) "current_direction_index e = 0" | (d) "current_direction_index e = 1"
    | (l) "current_direction_index e = 2" | (u) "current_direction_index e = 3"
    by (auto simp: fencing_inv_def)
  then show ?thesis
  proof cases
    case r
    with assms show ?thesis
      by (auto simp add: fencing_inv_def FencingEnemy_update_def and_then_def py_index_def Let_def)
  next
    case d
    with assms show ?thesis
      by (auto simp add: fencing_inv_def FencingEnemy_update_def and_then_def py_index_def Let_def)
  next
    case l
    with assms show ?thesis
      by (auto simp add: fencing_inv_def FencingEnemy_update_def and_then_def py_index_def Let_def)
  next
    case u
    with assms show ?thesis
      by (auto simp add: fencing_inv_def FencingEnemy_update_def and_then_def py_index_def Let_def)
  qed
qed

lemma FencingEnemy_init_inv:
  "\<exists>e g'. FencingEnemy_init g sz col = Inr (e, g') \<and> fencing_inv (home g) e \<and>
          current_direction_index e = 1 \<and> pos_x e = pos_x (home g) + 55"
  by (simp add: FencingEnemy_init_def FencingEnemy_update_def and_then_def py_index_def Let_def
        Enemy_init_def Enemy.extend_def fencing_inv_def)

lemma fencing_inv_respawn:
  "fencing_inv h e \<Longrightarrow> current_direction_index e = 1 \<Longrightarrow>
   fencing_inv h (e\<lparr>pos_x := pos_x h + 50, pos_y := pos_y h + 50\<rparr>)"
  by (simp add: fencing_inv_def)

text \<open>
  C6. A fencing enemy should never be more than \<open>distance_from_home = 50\<close> from
  the home on either axis. The code breaks this on the first leg: the constructor
  puts the enemy at the corner \<open>(home.x + 50, home.y + 50)\<close> and updates it once, to the
  right, which leaves it 55 from the home; and after \<^verbatim>\<open>create_enemy\<close> has put it
  back on the corner, the next update, downwards, leaves it 55 under the home.
\<close>

theorem FencingEnemy_overshoot:
  "(case FencingEnemy_init example_game 20 ''blue'' of
      Inl err \<Rightarrow> False
    | Inr (f, g') \<Rightarrow>
        distance_from_home f = 50 \<and> pos_x f - pos_x (home example_game) = 55) \<and>
   (case create_enemy (game_of_level 3) [] of
      Inl err \<Rightarrow> False
    | Inr (g', rs') \<Rightarrow>
        (case enemies g' of
           [Fencing f] \<Rightarrow>
             pos_x f - pos_x (home g') = 50 \<and> pos_y f - pos_y (home g') = 50 \<and>
             (case FencingEnemy_update g' f of
                Inl err \<Rightarrow> False
              | Inr (f', g'') \<Rightarrow>
                  distance_from_home f' = 50 \<and> pos_y f' - pos_y (home g') = 55)
         | _ \<Rightarrow> False))"
  by (simp add: create_enemy_eval fencing_eval)

end
